theory Spec2Isabelle
  imports Complex_Main "HOL-Library.Word"
begin

unbundle bit_operations_syntax

section \<open>Machine integers and control-flow helpers\<close>

text \<open>
  Fixed-width C integers are words; a signed type is a word read with \<open>sint\<close> and
  compared with \<open><s\<close>.  \<open>size_t\<close> quantities (lengths, byte positions, loop
  counters that the code keeps inside an array) are natural numbers.
\<close>

type_synonym u8 = "8 word"
type_synonym u16 = "16 word"
type_synonym u32 = "32 word"
type_synonym i16 = "16 word"
type_synonym i32 = "32 word"

text \<open>A \<open>for\<close> loop over the indices \<open>is\<close> whose body may return early with an error.\<close>

fun for_loop :: "nat list \<Rightarrow> (nat \<Rightarrow> 's \<Rightarrow> 'e + 's) \<Rightarrow> 's \<Rightarrow> 'e + 's" where
  "for_loop [] body s = Inr s"
| "for_loop (i # is) body s =
     (case body i s of Inl e \<Rightarrow> Inl e | Inr s' \<Rightarrow> for_loop is body s')"

section \<open>NPYCRF model and workspace (npycrf_lite.h)\<close>

text \<open>
  Pointers that the code tests against \<open>NULL\<close> are options; an array is the list of
  its elements.  The trie arrays hold \<open>da_index_t\<close> (\<open>int32_t\<close>) values, kept as
  integers.
\<close>

record npycrf_cc_range_t =
  cr_lo :: u32
  cr_hi :: u32
  cr_class_id :: u8

record npycrf_cc_t =
  cc_mode :: nat
  cc_fallback :: nat
  cc_ranges :: "npycrf_cc_range_t list option"
  cc_range_count :: u32

record npycrf_crf_t =
  trans00 :: i16
  trans01 :: i16
  trans10 :: i16
  trans11 :: i16
  bos_to1 :: i16
  feat_key :: "u32 list option"
  feat_w :: "i16 list option"
  feat_count :: u32

record da_trie_ro_t =
  ro_base :: "int list option"
  ro_check :: "int list option"
  ro_capacity :: nat

record npycrf_lm_t =
  lm_trie :: da_trie_ro_t
  logp_uni :: "i16 list option"
  vocab_size :: u32
  bigram_key :: "u32 list option"
  logp_bi :: "i16 list option"
  bigram_size :: u32
  unk_base :: i16
  unk_per_cp :: i16

record npycrf_model_t =
  crf :: npycrf_crf_t
  lm :: npycrf_lm_t
  lambda0 :: i16
  max_word_len :: u16
  flags :: u32
  cc :: npycrf_cc_t

text \<open>
  The workspace: its two capacities and the tables a decoder call fills.  Every table
  entry a call reads was written earlier in the same call, so the model starts each
  table zeroed at the size the call uses.
\<close>

record npycrf_work_t =
  w_max_n_cp :: u16
  w_max_word_len :: u16
  cp_off :: "u16 list"
  emit0 :: "i16 list"
  emit1 :: "i16 list"
  pref_emit0 :: "i32 list"
  span_id :: "u16 list"
  span_luni :: "i16 list"
  bp_prevlen :: "u8 list"
  dp_ring :: "i32 list"

definition NPYCRF_SCORE_NEG_INF :: i32 where
  "NPYCRF_SCORE_NEG_INF = - 0x3fffffff"

definition NPYCRF_ID_NONE :: u16 where "NPYCRF_ID_NONE = 0xFFFF"
definition NPYCRF_ID_BOS :: u16 where "NPYCRF_ID_BOS = 0xFFFE"

definition CC_OTHER :: u8 where "CC_OTHER = 0"
definition CC_SPACE :: u8 where "CC_SPACE = 1"
definition CC_DIGIT :: u8 where "CC_DIGIT = 2"
definition CC_ALPHA :: u8 where "CC_ALPHA = 3"
definition CC_HIRAGANA :: u8 where "CC_HIRAGANA = 4"
definition CC_KATAKANA :: u8 where "CC_KATAKANA = 5"
definition CC_KANJI :: u8 where "CC_KANJI = 6"
definition CC_FULLWIDTH :: u8 where "CC_FULLWIDTH = 7"
definition CC_SYMBOL :: u8 where "CC_SYMBOL = 8"
definition CC_UTF8_2BYTE :: u8 where "CC_UTF8_2BYTE = 9"
definition CC_UTF8_3BYTE :: u8 where "CC_UTF8_3BYTE = 10"
definition CC_UTF8_4BYTE :: u8 where "CC_UTF8_4BYTE = 11"
definition CC_BOS :: u8 where "CC_BOS = 250"
definition CC_EOS :: u8 where "CC_EOS = 251"

definition NPYCRF_CC_MODE_ASCII :: nat where "NPYCRF_CC_MODE_ASCII = 0"
definition NPYCRF_CC_MODE_UTF8LEN :: nat where "NPYCRF_CC_MODE_UTF8LEN = 1"
definition NPYCRF_CC_MODE_RANGES :: nat where "NPYCRF_CC_MODE_RANGES = 2"
definition NPYCRF_CC_MODE_COMPAT :: nat where "NPYCRF_CC_MODE_COMPAT = 3"

section \<open>UTF-8 decoding and code point offsets (npycrf_lite.c)\<close>

text \<open>
  \<open>utf8_decode1 s i\<close> decodes one code point of \<open>s\<close> at byte \<open>i\<close>: \<open>Some (i', cp)\<close>
  with the position after it, \<open>None\<close> where the C function returns 0.
\<close>

definition utf8_decode1 :: "u8 list \<Rightarrow> nat \<Rightarrow> (nat \<times> u32) option" where
  "utf8_decode1 s i =
    (if i \<ge> length s then None
     else let c0 = s ! i in
       if c0 AND 0x80 = 0 then Some (i + 1, ucast c0)
       else if c0 AND 0xE0 = 0xC0 then
         (if i + 1 \<ge> length s then None
          else let c1 = s ! (i + 1) in
            if c1 AND 0xC0 \<noteq> 0x80 then None
            else let cp = (push_bit 6 (ucast (c0 AND 0x1F)) OR ucast (c1 AND 0x3F) :: u32) in
              if cp < 0x80 then None else Some (i + 2, cp))
       else if c0 AND 0xF0 = 0xE0 then
         (if i + 2 \<ge> length s then None
          else let c1 = s ! (i + 1); c2 = s ! (i + 2) in
            if c1 AND 0xC0 \<noteq> 0x80 \<or> c2 AND 0xC0 \<noteq> 0x80 then None
            else let cp = (push_bit 12 (ucast (c0 AND 0x0F)) OR
                           push_bit 6 (ucast (c1 AND 0x3F)) OR
                           ucast (c2 AND 0x3F) :: u32) in
              if cp < 0x800 then None
              else if cp \<ge> 0xD800 \<and> cp \<le> 0xDFFF then None
              else Some (i + 3, cp))
       else if c0 AND 0xF8 = 0xF0 then
         (if i + 3 \<ge> length s then None
          else let c1 = s ! (i + 1); c2 = s ! (i + 2); c3 = s ! (i + 3) in
            if c1 AND 0xC0 \<noteq> 0x80 \<or> c2 AND 0xC0 \<noteq> 0x80 \<or> c3 AND 0xC0 \<noteq> 0x80 then None
            else let cp = (push_bit 18 (ucast (c0 AND 0x07)) OR
                           push_bit 12 (ucast (c1 AND 0x3F)) OR
                           push_bit 6 (ucast (c2 AND 0x3F)) OR
                           ucast (c3 AND 0x3F) :: u32) in
              if cp < 0x10000 then None
              else if cp > 0x10FFFF then None
              else Some (i + 4, cp))
       else None)"

lemma utf8_decode1_advances:
  "utf8_decode1 s i = Some (i', cp) \<Longrightarrow> i < i' \<and> i' \<le> length s"
  by (auto simp: utf8_decode1_def Let_def split: if_splits)

text \<open>
  \<open>npycrf_utf8_make_offsets\<close>: the loop at byte \<open>i\<close> with \<open>n\<close> offsets written.
  The result is the return value and the written part of \<open>out_off\<close>; the return
  value 0 stands for an error and for an input without code points alike.
\<close>

function make_offsets_loop :: "u8 list \<Rightarrow> nat \<Rightarrow> nat \<Rightarrow> nat \<Rightarrow> u16 list \<Rightarrow> nat \<times> u16 list" where
  "make_offsets_loop utf8 out_cap i n out_off =
    (if i < length utf8 then
       (if n + 1 \<ge> out_cap then (0, out_off)
        else
          (case utf8_decode1 utf8 i of
             None \<Rightarrow> (0, out_off @ [of_nat i])
           | Some (i', cp) \<Rightarrow> make_offsets_loop utf8 out_cap i' (n + 1) (out_off @ [of_nat i])))
     else if n \<ge> out_cap then (0, out_off)
     else (n, out_off @ [of_nat (length utf8)]))"
  by pat_completeness auto
termination
  by (relation "measure (\<lambda>(utf8, out_cap, i, n, out_off). length utf8 - i)")
     (auto dest: utf8_decode1_advances)

declare make_offsets_loop.simps [simp del]

definition npycrf_utf8_make_offsets :: "u8 list \<Rightarrow> nat \<Rightarrow> nat \<times> u16 list" where
  "npycrf_utf8_make_offsets utf8 out_cap = make_offsets_loop utf8 out_cap 0 0 []"

section \<open>Character classes (npycrf_lite.c)\<close>

definition char_class_ascii :: "u32 \<Rightarrow> u8" where
  "char_class_ascii cp =
    (if cp = 0x20 \<or> cp = 0x09 \<or> cp = 0x0A \<or> cp = 0x0D then CC_SPACE
     else if cp \<ge> 0x30 \<and> cp \<le> 0x39 then CC_DIGIT
     else if (cp \<ge> 0x41 \<and> cp \<le> 0x5A) \<or> (cp \<ge> 0x61 \<and> cp \<le> 0x7A) then CC_ALPHA
     else CC_SYMBOL)"

definition is_lossless_meta :: "u32 \<Rightarrow> bool" where
  "is_lossless_meta cp = (cp \<ge> 0x2580 \<and> cp \<le> 0x2584)"

definition char_class_utf8len :: "u32 \<Rightarrow> u8" where
  "char_class_utf8len cp =
    (if cp \<le> 0x7F then char_class_ascii cp
     else if cp \<le> 0x7FF then CC_UTF8_2BYTE
     else if cp \<le> 0xFFFF then CC_UTF8_3BYTE
     else CC_UTF8_4BYTE)"

text \<open>The linear scan used for at most 8 ranges.\<close>

fun ranges_linear :: "npycrf_cc_range_t list \<Rightarrow> u32 \<Rightarrow> u8" where
  "ranges_linear [] cp = CC_OTHER"
| "ranges_linear (r # rs) cp =
     (if cp \<ge> cr_lo r \<and> cp \<le> cr_hi r then cr_class_id r else ranges_linear rs cp)"

function ranges_bsearch :: "npycrf_cc_range_t list \<Rightarrow> u32 \<Rightarrow> nat \<Rightarrow> nat \<Rightarrow> u8" where
  "ranges_bsearch ranges cp lo hi =
    (if lo < hi then
       (let mid = lo + (hi - lo) div 2 in
          if cp < cr_lo (ranges ! mid) then ranges_bsearch ranges cp lo mid
          else if cp > cr_hi (ranges ! mid) then ranges_bsearch ranges cp (mid + 1) hi
          else cr_class_id (ranges ! mid))
     else CC_OTHER)"
  by pat_completeness auto
termination
  by (relation "measure (\<lambda>(ranges, cp, lo, hi). hi - lo)") auto

declare ranges_bsearch.simps [simp del]

definition char_class_from_ranges :: "npycrf_cc_range_t list option \<Rightarrow> u32 \<Rightarrow> u32 \<Rightarrow> u8" where
  "char_class_from_ranges ranges count cp =
    (case ranges of
       None \<Rightarrow> CC_OTHER
     | Some rs \<Rightarrow>
         if count = 0 then CC_OTHER
         else if count \<le> 8 then ranges_linear (take (unat count) rs) cp
         else ranges_bsearch rs cp 0 (unat count))"

text \<open>\<open>npycrf_char_class_cp\<close>; the argument \<open>None\<close> is the call with \<open>cc = NULL\<close>.\<close>

definition compat_class :: "u32 \<Rightarrow> u8" where
  "compat_class cp =
    (if cp \<ge> 0x3040 \<and> cp \<le> 0x309F then CC_HIRAGANA
     else if cp \<ge> 0x30A0 \<and> cp \<le> 0x30FF then CC_KATAKANA
     else if cp \<ge> 0x4E00 \<and> cp \<le> 0x9FFF then CC_KANJI
     else if cp \<ge> 0xFF00 \<and> cp \<le> 0xFFEF then CC_FULLWIDTH
     else CC_OTHER)"

definition npycrf_char_class_cp :: "npycrf_cc_t option \<Rightarrow> u32 \<Rightarrow> u8" where
  "npycrf_char_class_cp cco cp =
    (if is_lossless_meta cp then CC_SPACE
     else if cp \<le> 0x7F then char_class_ascii cp
     else case cco of
       None \<Rightarrow> compat_class cp
     | Some c \<Rightarrow>
         if cc_mode c = NPYCRF_CC_MODE_ASCII then CC_OTHER
         else if cc_mode c = NPYCRF_CC_MODE_UTF8LEN then char_class_utf8len cp
         else if cc_mode c = NPYCRF_CC_MODE_RANGES then
           (let cls = char_class_from_ranges (cc_ranges c) (cc_range_count c) cp in
              if cls \<noteq> CC_OTHER then cls
              else if cc_fallback c = NPYCRF_CC_MODE_UTF8LEN then char_class_utf8len cp
              else CC_OTHER)
         else if cc_mode c = NPYCRF_CC_MODE_COMPAT then compat_class cp
         else CC_OTHER)"

definition char_class :: "u32 \<Rightarrow> u8" where
  "char_class cp = npycrf_char_class_cp None cp"

section \<open>CRF feature lookup and emissions (npycrf_lite.c)\<close>

definition npycrf_feat_key :: "u8 \<Rightarrow> u8 \<Rightarrow> u8 \<Rightarrow> u8 \<Rightarrow> u32" where
  "npycrf_feat_key template_id label v1 v2 =
     push_bit 24 (ucast template_id) OR push_bit 16 (ucast label) OR
     push_bit 8 (ucast v1) OR ucast v2"

text \<open>
  The binary search of \<open>crf_lookup_w\<close> and \<open>lm_bigram_logp\<close> over a sorted key
  table: the weight at the key, or \<open>dflt\<close>.
\<close>

function bsearch_u32 :: "u32 list \<Rightarrow> i16 list \<Rightarrow> u32 \<Rightarrow> i16 \<Rightarrow> nat \<Rightarrow> nat \<Rightarrow> i16" where
  "bsearch_u32 keys vals key dflt lo hi =
    (if lo < hi then
       (let mid = lo + (hi - lo) div 2; k = keys ! mid in
          if k = key then vals ! mid
          else if k < key then bsearch_u32 keys vals key dflt (mid + 1) hi
          else bsearch_u32 keys vals key dflt lo mid)
     else dflt)"
  by pat_completeness auto
termination
  by (relation "measure (\<lambda>(keys, vals, key, dflt, lo, hi). hi - lo)") auto

declare bsearch_u32.simps [simp del]

definition crf_lookup_w :: "npycrf_crf_t \<Rightarrow> u32 \<Rightarrow> i16" where
  "crf_lookup_w c key =
    (case (feat_key c, feat_w c) of
       (Some keys, Some ws) \<Rightarrow>
         if feat_count c = 0 then 0
         else bsearch_u32 keys ws key 0 0 (unat (feat_count c))
     | _ \<Rightarrow> 0)"

text \<open>
  \<open>crf_emit_pos\<close>: the \<open>int32_t\<close> sum of five \<open>int16_t\<close> weights cannot overflow, so
  it is computed on integers and clamped to the \<open>int16_t\<close> range.
\<close>

definition clamp_i16 :: "int \<Rightarrow> i16" where
  "clamp_i16 v = word_of_int (if v > 32767 then 32767 else if v < - 32768 then - 32768 else v)"

definition crf_emit_pos :: "npycrf_crf_t \<Rightarrow> u8 \<Rightarrow> u8 \<Rightarrow> u8 \<Rightarrow> u8 \<Rightarrow> i16" where
  "crf_emit_pos c label prev_c cur_c next_c =
    clamp_i16
      (sint (crf_lookup_w c (npycrf_feat_key 0 label cur_c 0)) +
       sint (crf_lookup_w c (npycrf_feat_key 1 label prev_c 0)) +
       sint (crf_lookup_w c (npycrf_feat_key 2 label next_c 0)) +
       sint (crf_lookup_w c (npycrf_feat_key 3 label prev_c cur_c)) +
       sint (crf_lookup_w c (npycrf_feat_key 4 label cur_c next_c)))"

text \<open>
  The class of the code point that starts at offset \<open>off ! i\<close>; \<open>None\<close> where
  \<open>utf8_decode1\<close> fails (the caller returns \<open>-2\<close>).
\<close>

definition class_at :: "u8 list \<Rightarrow> u16 list \<Rightarrow> nat \<Rightarrow> u8 option" where
  "class_at utf8 off i =
    (case utf8_decode1 utf8 (unat (off ! i)) of
       None \<Rightarrow> None
     | Some (i', cp) \<Rightarrow> Some (char_class cp))"

definition emissions_body ::
  "npycrf_model_t \<Rightarrow> u8 list \<Rightarrow> u16 list \<Rightarrow> nat \<Rightarrow> nat \<Rightarrow> npycrf_work_t \<Rightarrow> int + npycrf_work_t" where
  "emissions_body m utf8 off n_cp i w =
    (case class_at utf8 off i of
       None \<Rightarrow> Inl (- 2)
     | Some cur \<Rightarrow>
        (case (if i > 0 then class_at utf8 off (i - 1) else Some CC_BOS) of
           None \<Rightarrow> Inl (- 2)
         | Some prev \<Rightarrow>
            (case (if i + 1 < n_cp then class_at utf8 off (i + 1) else Some CC_EOS) of
               None \<Rightarrow> Inl (- 2)
             | Some next \<Rightarrow>
                 Inr (w\<lparr> emit0 := (emit0 w)[i := crf_emit_pos (crf m) 0 prev cur next],
                         emit1 := (emit1 w)[i := crf_emit_pos (crf m) 1 prev cur next] \<rparr>))))"

definition pref_body :: "nat \<Rightarrow> npycrf_work_t \<Rightarrow> npycrf_work_t" where
  "pref_body i w =
     w\<lparr> pref_emit0 := (pref_emit0 w)[i + 1 := pref_emit0 w ! i + scast (emit0 w ! i)] \<rparr>"

definition precompute_emissions ::
  "npycrf_model_t \<Rightarrow> u8 list \<Rightarrow> u16 list \<Rightarrow> nat \<Rightarrow> npycrf_work_t \<Rightarrow> int + npycrf_work_t" where
  "precompute_emissions m utf8 off n_cp w0 =
    (case for_loop [0..<n_cp] (emissions_body m utf8 off n_cp)
            (w0\<lparr> emit0 := replicate n_cp 0, emit1 := replicate n_cp 0,
                 pref_emit0 := replicate (n_cp + 1) 0 \<rparr>) of
       Inl e \<Rightarrow> Inl e
     | Inr w \<Rightarrow>
         Inr (fold pref_body [0..<n_cp] (w\<lparr> pref_emit0 := (pref_emit0 w)[0 := 0] \<rparr>)))"

section \<open>CRF segment score (npycrf_lite.c)\<close>

text \<open>
  \<open>crf_seg_score\<close> for the span \<open>[s, t)\<close>; \<open>k\<close> is the \<open>uint16_t\<close> difference.
  All additions are \<open>int32_t\<close> additions.
\<close>

definition crf_seg_score :: "npycrf_model_t \<Rightarrow> npycrf_work_t \<Rightarrow> nat \<Rightarrow> nat \<Rightarrow> i32" where
  "crf_seg_score m w s t =
    (let k = nat ((int t - int s) mod 65536) in
       if k = 0 then 0
       else if k = 1 then scast (emit1 w ! s) + scast (trans11 (crf m))
       else
         scast (emit1 w ! s) + scast (trans10 (crf m)) +
         (pref_emit0 w ! t - pref_emit0 w ! (s + 1)) +
         scast (trans00 (crf m)) * of_nat (k - 2) +
         scast (trans01 (crf m)))"

text \<open>
  The naive recomputation the specification compares with: the \<open>emit0\<close> values of the
  inner positions \<open>s+1, ..., t-1\<close> added one by one.
\<close>

definition naive_emit0_sum :: "npycrf_work_t \<Rightarrow> nat \<Rightarrow> nat \<Rightarrow> i32" where
  "naive_emit0_sum w s t = fold (\<lambda>i acc. acc + scast (emit0 w ! i)) [s + 1..<t] 0"

definition naive_seg_score :: "npycrf_model_t \<Rightarrow> npycrf_work_t \<Rightarrow> nat \<Rightarrow> nat \<Rightarrow> i32" where
  "naive_seg_score m w s t =
     scast (emit1 w ! s) + scast (trans10 (crf m)) + naive_emit0_sum w s t +
     of_nat (t - s - 2) * scast (trans00 (crf m)) + scast (trans01 (crf m))"

section \<open>Language model helpers and the read-only trie walk (npycrf_lite.c)\<close>

definition q16_mul_q8 :: "i32 \<Rightarrow> i32 \<Rightarrow> i32" where
  "q16_mul_q8 a_q8 b_q8 = word_of_int ((sint a_q8 * sint b_q8) div 256)"

definition lm_unigram_logp :: "npycrf_lm_t \<Rightarrow> u16 \<Rightarrow> nat \<Rightarrow> i16" where
  "lm_unigram_logp l ident len_cp =
    (if ident \<noteq> NPYCRF_ID_NONE \<and> ident \<noteq> NPYCRF_ID_BOS \<and>
        unat ident < unat (vocab_size l) \<and> logp_uni l \<noteq> None
     then the (logp_uni l) ! unat ident
     else clamp_i16 (sint (unk_base l) + sint (unk_per_cp l) * int len_cp))"

definition lm_bigram_logp :: "npycrf_lm_t \<Rightarrow> u16 \<Rightarrow> u16 \<Rightarrow> i16 \<Rightarrow> i16" where
  "lm_bigram_logp l prev_id curr_id curr_backoff =
    (case (bigram_key l, logp_bi l) of
       (Some keys, Some vals) \<Rightarrow>
         if bigram_size l = 0 then curr_backoff
         else if prev_id = NPYCRF_ID_NONE \<or> curr_id = NPYCRF_ID_NONE then curr_backoff
         else bsearch_u32 keys vals (push_bit 16 (ucast prev_id) OR ucast curr_id) curr_backoff
                0 (unat (bigram_size l))
     | _ \<Rightarrow> curr_backoff)"

definition span_index :: "nat \<Rightarrow> nat \<Rightarrow> nat \<Rightarrow> nat" where
  "span_index end_pos len L = end_pos * (L + 1) + len"

text \<open>\<open>da_next_ro_local\<close>: one transition of the read-only trie; 0 is failure.\<close>

definition da_next_ro_local :: "da_trie_ro_t \<Rightarrow> int \<Rightarrow> u8 \<Rightarrow> int" where
  "da_next_ro_local da cur code =
    (case (ro_base da, ro_check da) of
       (Some bs, Some cs) \<Rightarrow>
         if cur \<le> 0 \<or> nat cur \<ge> ro_capacity da then 0
         else let b = bs ! nat cur in
           if b \<le> 0 then 0
           else let idx = nat b + unat code in
             if idx \<ge> ro_capacity da then 0
             else if cs ! idx = cur then int idx
             else 0
     | _ \<Rightarrow> 0)"

section \<open>Span precomputation (npycrf_lite.c)\<close>

text \<open>The inner byte loop of \<open>precompute_spans\<close>: it breaks at the first failure.\<close>

fun walk_bytes :: "da_trie_ro_t \<Rightarrow> int \<Rightarrow> u8 list \<Rightarrow> int" where
  "walk_bytes da node [] = node"
| "walk_bytes da node (b # bs) =
     (let node' = da_next_ro_local da node b in
        if node' = 0 then 0 else walk_bytes da node' bs)"

text \<open>The bytes \<open>utf8[b0 .. b1)\<close>.\<close>

definition bytes_between :: "u8 list \<Rightarrow> nat \<Rightarrow> nat \<Rightarrow> u8 list" where
  "bytes_between utf8 b0 b1 = map (\<lambda>bi. utf8 ! bi) [b0..<b1]"

text \<open>
  The loop over the lengths \<open>l\<close> for one start position: \<open>ls\<close> are the lengths
  still to visit, \<open>node\<close> the trie node reached so far.
\<close>

fun spans_from :: "npycrf_model_t \<Rightarrow> u8 list \<Rightarrow> u16 list \<Rightarrow> nat \<Rightarrow> nat list \<Rightarrow> int \<Rightarrow>
    npycrf_work_t \<Rightarrow> npycrf_work_t" where
  "spans_from m utf8 off start_cp [] node w = w"
| "spans_from m utf8 off start_cp (l # ls) node w =
    (let L = unat (max_word_len m);
         cp_i = start_cp + l - 1;
         node' = walk_bytes (lm_trie (lm m)) node
                   (bytes_between utf8 (unat (off ! cp_i)) (unat (off ! (cp_i + 1))))
     in if node' = 0 then w
        else
          (let term = da_next_ro_local (lm_trie (lm m)) node' 0;
               w' = (if term \<noteq> 0 then
                       (let v = the (ro_base (lm_trie (lm m))) ! nat term in
                          if v < 0 \<and> - v - 1 \<le> 0xFFFF then
                            w\<lparr> span_id := (span_id w)
                                 [span_index (start_cp + l) l L := word_of_int (- v - 1)] \<rparr>
                          else w)
                     else w)
           in spans_from m utf8 off start_cp ls node' w'))"

definition spans_start_body ::
  "npycrf_model_t \<Rightarrow> u8 list \<Rightarrow> u16 list \<Rightarrow> nat \<Rightarrow> nat \<Rightarrow> npycrf_work_t \<Rightarrow> npycrf_work_t" where
  "spans_start_body m utf8 off n_cp start_cp w =
    (let L = unat (max_word_len m);
         max_l = (if start_cp + L \<le> n_cp then L else n_cp - start_cp)
     in spans_from m utf8 off start_cp [1..<max_l + 1] 1 w)"

definition luni_body :: "npycrf_model_t \<Rightarrow> nat \<Rightarrow> nat \<Rightarrow> npycrf_work_t \<Rightarrow> npycrf_work_t" where
  "luni_body m end_cp l w =
    (let idx = span_index end_cp l (unat (max_word_len m)) in
       w\<lparr> span_luni := (span_luni w)[idx := lm_unigram_logp (lm m) (span_id w ! idx) l] \<rparr>)"

definition luni_end_body :: "npycrf_model_t \<Rightarrow> nat \<Rightarrow> npycrf_work_t \<Rightarrow> npycrf_work_t" where
  "luni_end_body m end_cp w =
    (let L = unat (max_word_len m);
         max_l = (if end_cp \<le> L then end_cp else L)
     in fold (luni_body m end_cp) [1..<max_l + 1] w)"

text \<open>
  \<open>precompute_spans\<close>.  The result \<open>None\<close> is a call that does not return: with
  \<open>n_cp = 65535\<close> the \<open>uint16_t\<close> counter of \<open>for (end_cp = 1; end_cp <= n_cp; end_cp++)\<close>
  wraps around and the loop never ends.
\<close>

definition precompute_spans ::
  "npycrf_model_t \<Rightarrow> u8 list \<Rightarrow> u16 list \<Rightarrow> nat \<Rightarrow> npycrf_work_t \<Rightarrow> (int + npycrf_work_t) option" where
  "precompute_spans m utf8 off n_cp w0 =
    (let L = unat (max_word_len m) in
       if L = 0 then Some (Inl (- 1))
       else if n_cp > unat (w_max_n_cp w0) \<or> L > unat (w_max_word_len w0) then Some (Inl (- 2))
       else if n_cp = 65535 then None
       else
         (let spanN = (n_cp + 1) * (L + 1);
              w1 = w0\<lparr> span_id := replicate spanN NPYCRF_ID_NONE,
                       span_luni := replicate spanN 0,
                       bp_prevlen := replicate spanN 0 \<rparr>;
              w2 = w1\<lparr> span_id := (span_id w1)[span_index 0 0 L := NPYCRF_ID_BOS],
                       span_luni := (span_luni w1)[span_index 0 0 L := 0] \<rparr>;
              w3 = fold (spans_start_body m utf8 off n_cp) [0..<n_cp] w2;
              w4 = fold (luni_end_body m) [1..<n_cp + 1] w3
          in Some (Inr w4)))"

section \<open>Viterbi decoding (npycrf_lite.c)\<close>

datatype decode_result = Error int | Decoded "u16 list" i32

text \<open>The candidate score of one predecessor state, as the DP computes it.\<close>

definition edge_add :: "npycrf_model_t \<Rightarrow> u16 \<Rightarrow> u16 \<Rightarrow> i16 \<Rightarrow> i32" where
  "edge_add m prev_id curr_id curr_luni =
     q16_mul_q8 (scast (lambda0 m)) (scast (lm_bigram_logp (lm m) prev_id curr_id curr_luni))"

text \<open>The loop over \<open>j = 1..jmax\<close>: the state is \<open>(best, best_j)\<close>.\<close>

definition viterbi_j_body ::
  "npycrf_model_t \<Rightarrow> npycrf_work_t \<Rightarrow> nat \<Rightarrow> nat \<Rightarrow> nat \<Rightarrow> nat \<Rightarrow> i32 \<times> u8 \<Rightarrow> i32 \<times> u8" where
  "viterbi_j_body m w pos k prev_pos j st =
    (let L = unat (max_word_len m);
         L1 = L + 1;
         prev_row = prev_pos mod (L + 1);
         prev_score = dp_ring w ! (prev_row * L1 + j)
     in if prev_score = NPYCRF_SCORE_NEG_INF then st
        else
          (let seg = crf_seg_score m w prev_pos pos;
               idx_curr = span_index pos k L;
               prev_id = span_id w ! span_index prev_pos j L;
               add = edge_add m prev_id (span_id w ! idx_curr) (span_luni w ! idx_curr);
               cand = prev_score + seg + add
           in if fst st <s cand then (cand, of_nat j) else st))"

definition viterbi_k_body :: "npycrf_model_t \<Rightarrow> nat \<Rightarrow> nat \<Rightarrow> npycrf_work_t \<Rightarrow> npycrf_work_t" where
  "viterbi_k_body m pos k w =
    (let L = unat (max_word_len m);
         L1 = L + 1;
         row = pos mod (L + 1);
         start = pos - k;
         seg = crf_seg_score m w start pos;
         idx_curr = span_index pos k L;
         curr_id = span_id w ! idx_curr;
         curr_luni = span_luni w ! idx_curr;
         prev_pos = start;
         prev_row = prev_pos mod (L + 1);
         st0 = (if prev_pos = 0 \<and> dp_ring w ! (prev_row * L1 + 0) \<noteq> NPYCRF_SCORE_NEG_INF
                then (dp_ring w ! (prev_row * L1 + 0) + seg +
                        edge_add m NPYCRF_ID_BOS curr_id curr_luni, 0)
                else (NPYCRF_SCORE_NEG_INF, 0));
         jmax = (if prev_pos \<le> L then prev_pos else L);
         st = fold (viterbi_j_body m w pos k prev_pos) [1..<jmax + 1] st0
     in w\<lparr> dp_ring := (dp_ring w)[row * L1 + k := fst st],
            bp_prevlen := (bp_prevlen w)[span_index pos k L := snd st] \<rparr>)"

definition viterbi_pos_body :: "npycrf_model_t \<Rightarrow> nat \<Rightarrow> npycrf_work_t \<Rightarrow> npycrf_work_t" where
  "viterbi_pos_body m pos w =
    (let L = unat (max_word_len m);
         L1 = L + 1;
         row = pos mod (L + 1);
         w1 = fold (\<lambda>k w. w\<lparr> dp_ring := (dp_ring w)[row * L1 + k := NPYCRF_SCORE_NEG_INF] \<rparr>)
                [0..<L + 1] w;
         kmax = (if pos \<le> L then pos else L)
     in fold (viterbi_k_body m pos) [1..<kmax + 1] w1)"

text \<open>The choice of the best final state: the state is \<open>(best_final, best_k)\<close>.\<close>

definition final_body :: "npycrf_model_t \<Rightarrow> npycrf_work_t \<Rightarrow> nat \<Rightarrow> nat \<Rightarrow> i32 \<times> nat \<Rightarrow> i32 \<times> nat" where
  "final_body m w n_cp k st =
    (let L = unat (max_word_len m);
         v = dp_ring w ! ((n_cp mod (L + 1)) * (L + 1) + k)
     in if fst st <s v then (v, k) else st)"

text \<open>
  The backtracking loop \<open>while (1)\<close>, entered with \<open>pos \<noteq> 0\<close>: \<open>out\<close> is the part of
  \<open>out_b_cp\<close> written so far (its length is \<open>bcnt\<close>).  The check against
  \<open>n_cp + 1\<close> bounds the number of rounds.
\<close>

function backtrack :: "npycrf_model_t \<Rightarrow> npycrf_work_t \<Rightarrow> nat \<Rightarrow> nat \<Rightarrow> nat \<Rightarrow> u16 list \<Rightarrow>
    int + u16 list" where
  "backtrack m w n_cp pos k out =
    (let out1 = out @ [of_nat pos] in
       if pos = 0 then Inr out1
       else
         (let start = nat ((int pos - int k) mod 65536);
              j = bp_prevlen w ! span_index pos k (unat (max_word_len m))
          in if start = 0 then Inr (out1 @ [0])
             else if unat j = 0 then Inl (- 22)
             else if length out1 > n_cp + 1 then Inl (- 23)
             else backtrack m w n_cp start (unat j) out1))"
  by pat_completeness auto
termination
  by (relation "measure (\<lambda>(m, w, n_cp, pos, k, out). n_cp + 2 - length out)") auto

declare backtrack.simps [simp del]

text \<open>
  \<open>npycrf_decode\<close> with non-null arguments.  \<open>None\<close> is a call that does not return
  (a wrapped \<open>uint16_t\<close> loop counter, see \<open>precompute_spans\<close>; with
  \<open>max_word_len = 65535\<close> the loop \<open>for (k = 0; k <= L; k++)\<close> never ends).
\<close>

definition viterbi_forward :: "npycrf_model_t \<Rightarrow> nat \<Rightarrow> npycrf_work_t \<Rightarrow> npycrf_work_t" where
  "viterbi_forward model n_cp ws =
    (let L1 = unat (max_word_len model) + 1;
         w0 = ws\<lparr> dp_ring := replicate (L1 * L1) NPYCRF_SCORE_NEG_INF \<rparr>;
         w1 = w0\<lparr> dp_ring := (dp_ring w0)[0 := scast (bos_to1 (crf model))] \<rparr>
     in fold (viterbi_pos_body model) [1..<n_cp + 1] w1)"

definition viterbi_finish ::
  "npycrf_model_t \<Rightarrow> nat \<Rightarrow> nat \<Rightarrow> npycrf_work_t \<Rightarrow> decode_result" where
  "viterbi_finish model n_cp out_b_cap w2 =
    (let L = unat (max_word_len model);
         kmax_end = (if n_cp \<le> L then n_cp else L);
         fin = fold (final_body model w2 n_cp) [1..<kmax_end + 1] (NPYCRF_SCORE_NEG_INF, 0);
         best_final = fst fin;
         best_k = snd fin
     in if n_cp = 0 then Decoded [0, 0] (dp_ring w2 ! 0)
        else if best_k = 0 \<or> best_final = NPYCRF_SCORE_NEG_INF then Error (- 20)
        else if out_b_cap < n_cp + 1 then Error (- 21)
        else
          (case backtrack model w2 n_cp n_cp best_k [] of
             Inl e \<Rightarrow> Error e
           | Inr out \<Rightarrow>
               (let b = rev out in
                  if b ! 0 \<noteq> 0 \<or> b ! (length b - 1) \<noteq> of_nat n_cp then Error (- 24)
                  else Decoded b best_final)))"

definition npycrf_decode ::
  "npycrf_model_t \<Rightarrow> u8 list \<Rightarrow> npycrf_work_t \<Rightarrow> nat \<Rightarrow> decode_result option" where
  "npycrf_decode model utf8 work out_b_cap =
    (if max_word_len model = 0 then Some (Error (- 1))
     else if w_max_n_cp work = 0 then Some (Error (- 2))
     else
       (let r = npycrf_utf8_make_offsets utf8 (unat (w_max_n_cp work) + 1);
            n_cp_sz = fst r;
            off = snd r
        in if n_cp_sz = 0 then Some (Error (- 3))
           else if n_cp_sz > unat (w_max_n_cp work) then Some (Error (- 3))
           else
             (let n_cp = n_cp_sz; L = unat (max_word_len model) in
                if L > unat (w_max_word_len work) then Some (Error (- 4))
                else if out_b_cap < 2 then Some (Error (- 5))
                else
                  (case precompute_emissions model utf8 off n_cp (work\<lparr> cp_off := off \<rparr>) of
                     Inl e \<Rightarrow> Some (Error (- 10))
                   | Inr we \<Rightarrow>
                      (case precompute_spans model utf8 off n_cp we of
                         None \<Rightarrow> None
                       | Some (Inl e) \<Rightarrow> Some (Error (- 11))
                       | Some (Inr ws) \<Rightarrow>
                           if L = 65535 then None
                           else Some (viterbi_finish model n_cp out_b_cap
                                        (viterbi_forward model n_cp ws)))))))"

section \<open>N-best Viterbi (npycrf_lite.c)\<close>



















section \<open>Forward filtering, backward sampling (npycrf_lite.c)\<close>

text \<open>
  \<open>double\<close> arithmetic is a parameter: the operations the sampler uses, over any type
  \<open>'f\<close> of values.  \<open>f_lt a b\<close> is the C comparison \<open>a < b\<close>, \<open>f_eq\<close> is \<open>==\<close>,
  \<open>f_of_int\<close> the conversion of an integer value.
\<close>

record 'f fops =
  f_neg_inf :: 'f
  f_zero :: 'f
  f_one :: 'f
  f_add :: "'f \<Rightarrow> 'f \<Rightarrow> 'f"
  f_sub :: "'f \<Rightarrow> 'f \<Rightarrow> 'f"
  f_mul :: "'f \<Rightarrow> 'f \<Rightarrow> 'f"
  f_div :: "'f \<Rightarrow> 'f \<Rightarrow> 'f"
  f_exp :: "'f \<Rightarrow> 'f"
  f_log :: "'f \<Rightarrow> 'f"
  f_lt :: "'f \<Rightarrow> 'f \<Rightarrow> bool"
  f_le :: "'f \<Rightarrow> 'f \<Rightarrow> bool"
  f_eq :: "'f \<Rightarrow> 'f \<Rightarrow> bool"
  f_isnan :: "'f \<Rightarrow> bool"
  f_isinf :: "'f \<Rightarrow> bool"
  f_of_int :: "int \<Rightarrow> 'f"

text \<open>\<open>xs32\<close> with a non-null state pointer: the new state, which is also the result.\<close>

definition xs32 :: "u32 \<Rightarrow> u32" where
  "xs32 state =
    (let x0 = (if state \<noteq> 0 then state else 0x12345678);
         x1 = x0 XOR push_bit 13 x0;
         x2 = x1 XOR drop_bit 17 x1;
         x3 = x2 XOR push_bit 5 x2
     in x3)"

definition xs32_u01 :: "'f fops \<Rightarrow> u32 \<Rightarrow> 'f" where
  "xs32_u01 F x = f_mul F (f_of_int F (uint (drop_bit 8 x))) (f_div F (f_one F) (f_of_int F 16777216))"

definition logsumexp2 :: "'f fops \<Rightarrow> 'f \<Rightarrow> 'f \<Rightarrow> 'f" where
  "logsumexp2 F a b =
    (if f_eq F a (f_neg_inf F) then b
     else if f_eq F b (f_neg_inf F) then a
     else
       (let m = (if f_lt F b a then a else b)
        in f_add F m (f_log F (f_add F (f_exp F (f_sub F a m)) (f_exp F (f_sub F b m))))))"

definition score_q88_to_f :: "'f fops \<Rightarrow> i32 \<Rightarrow> 'f" where
  "score_q88_to_f F q = f_div F (f_of_int F (sint q)) (f_of_int F 256)"

text \<open>The tempered edge score \<open>score_q88_to_f(seg + add) / temperature\<close> into \<open>(pos, k)\<close>.\<close>

definition sample_edge ::
  "'f fops \<Rightarrow> npycrf_model_t \<Rightarrow> npycrf_work_t \<Rightarrow> 'f \<Rightarrow> nat \<Rightarrow> nat \<Rightarrow> nat \<Rightarrow> u16 \<Rightarrow> 'f" where
  "sample_edge F m w temperature start pos k prev_id =
    (let L = unat (max_word_len m);
         seg = crf_seg_score m w start pos;
         idx_curr = span_index pos k L;
         add = edge_add m prev_id (span_id w ! idx_curr) (span_luni w ! idx_curr)
     in f_div F (score_q88_to_f F (seg + add)) temperature)"

definition sample_fwd_j_body ::
  "'f fops \<Rightarrow> npycrf_model_t \<Rightarrow> npycrf_work_t \<Rightarrow> 'f \<Rightarrow> 'f list \<Rightarrow> nat \<Rightarrow> nat \<Rightarrow> nat \<Rightarrow> 'f \<Rightarrow> 'f" where
  "sample_fwd_j_body F m w temperature alpha pos k j log_sum =
    (let L = unat (max_word_len m);
         start = pos - k;
         prev = alpha ! (start * (L + 1) + j)
     in if f_eq F prev (f_neg_inf F) then log_sum
        else logsumexp2 F log_sum
               (f_add F prev
                  (sample_edge F m w temperature start pos k (span_id w ! span_index start j L))))"

definition sample_fwd_k_body ::
  "'f fops \<Rightarrow> npycrf_model_t \<Rightarrow> npycrf_work_t \<Rightarrow> 'f \<Rightarrow> nat \<Rightarrow> nat \<Rightarrow> 'f list \<Rightarrow> 'f list" where
  "sample_fwd_k_body F m w temperature pos k alpha =
    (let L = unat (max_word_len m);
         start = pos - k;
         log_sum =
           (if start = 0 then
              (let prev = alpha ! 0 in
                 if \<not> f_eq F prev (f_neg_inf F)
                 then f_add F prev (sample_edge F m w temperature start pos k NPYCRF_ID_BOS)
                 else f_neg_inf F)
            else
              (let jmax = (if start \<le> L then start else L)
               in fold (sample_fwd_j_body F m w temperature alpha pos k) [1..<jmax + 1]
                    (f_neg_inf F)))
     in alpha[pos * (L + 1) + k := log_sum])"

definition sample_forward ::
  "'f fops \<Rightarrow> npycrf_model_t \<Rightarrow> npycrf_work_t \<Rightarrow> 'f \<Rightarrow> nat \<Rightarrow> 'f list" where
  "sample_forward F m w temperature n_cp =
    (let L = unat (max_word_len m);
         states = (n_cp + 1) * (L + 1);
         alpha0 = replicate states (f_neg_inf F);
         alpha1 = alpha0[0 := f_div F (score_q88_to_f F (scast (bos_to1 (crf m)))) temperature]
     in fold (\<lambda>pos alpha.
                fold (sample_fwd_k_body F m w temperature pos)
                  [1..<(if pos \<le> L then pos else L) + 1] alpha)
          [1..<n_cp + 1] alpha1)"

text \<open>
  The loop that picks the final length: the state is \<open>(cdf, cur_k, done)\<close>, where
  \<open>done\<close> records the \<open>break\<close>.
\<close>

definition sample_pick_k_body ::
  "'f fops \<Rightarrow> 'f list \<Rightarrow> nat \<Rightarrow> 'f \<Rightarrow> 'f \<Rightarrow> nat \<Rightarrow> 'f \<times> nat \<times> bool \<Rightarrow> 'f \<times> nat \<times> bool" where
  "sample_pick_k_body F alpha base logZ u k st =
    (if snd (snd st) then st
     else
       (let lp = f_sub F (alpha ! (base + k)) logZ;
            p = f_exp F lp;
            cdf = f_add F (fst st) p
        in if f_le F u cdf then (cdf, k, True) else (cdf, fst (snd st), False)))"

text \<open>The log weight of predecessor length \<open>j\<close> in the backward step at \<open>(pos, k)\<close>.\<close>

definition sample_lw ::
  "'f fops \<Rightarrow> npycrf_model_t \<Rightarrow> npycrf_work_t \<Rightarrow> 'f \<Rightarrow> 'f list \<Rightarrow> nat \<Rightarrow> nat \<Rightarrow> nat \<Rightarrow> 'f" where
  "sample_lw F m w temperature alpha pos k j =
    (let L = unat (max_word_len m);
         start = nat ((int pos - int k) mod 65536);
         a_prev = alpha ! (start * (L + 1) + j);
         edge = sample_edge F m w temperature start pos k (span_id w ! span_index start j L)
     in f_sub F (f_add F a_prev edge) (alpha ! (pos * (L + 1) + k)))"

definition sample_valid :: "'f fops \<Rightarrow> npycrf_model_t \<Rightarrow> 'f list \<Rightarrow> nat \<Rightarrow> nat \<Rightarrow> bool" where
  "sample_valid F m alpha start j =
     (\<not> f_eq F (alpha ! (start * (unat (max_word_len m) + 1) + j)) (f_neg_inf F))"

text \<open>First pass: the state is \<open>(maxlw, valid)\<close>.\<close>

definition sample_max_body ::
  "'f fops \<Rightarrow> npycrf_model_t \<Rightarrow> npycrf_work_t \<Rightarrow> 'f \<Rightarrow> 'f list \<Rightarrow> nat \<Rightarrow> nat \<Rightarrow> nat \<Rightarrow> nat \<Rightarrow>
     'f \<times> nat \<Rightarrow> 'f \<times> nat" where
  "sample_max_body F m w temperature alpha pos k start j st =
    (if \<not> sample_valid F m alpha start j then st
     else
       (let lw = sample_lw F m w temperature alpha pos k j
        in (if f_lt F (fst st) lw then lw else fst st, snd st + 1)))"

text \<open>Second pass: the sum of \<open>exp(lw - maxlw)\<close>.\<close>

definition sample_sum_body ::
  "'f fops \<Rightarrow> npycrf_model_t \<Rightarrow> npycrf_work_t \<Rightarrow> 'f \<Rightarrow> 'f list \<Rightarrow> nat \<Rightarrow> nat \<Rightarrow> nat \<Rightarrow> 'f \<Rightarrow> nat \<Rightarrow>
     'f \<Rightarrow> 'f" where
  "sample_sum_body F m w temperature alpha pos k start maxlw j sm =
    (if \<not> sample_valid F m alpha start j then sm
     else f_add F sm (f_exp F (f_sub F (sample_lw F m w temperature alpha pos k j) maxlw)))"

text \<open>Third pass: the state is \<open>(acc, pick, done)\<close>.\<close>

definition sample_pick_j_body ::
  "'f fops \<Rightarrow> npycrf_model_t \<Rightarrow> npycrf_work_t \<Rightarrow> 'f \<Rightarrow> 'f list \<Rightarrow> nat \<Rightarrow> nat \<Rightarrow> nat \<Rightarrow> 'f \<Rightarrow> 'f \<Rightarrow> nat \<Rightarrow>
     'f \<times> nat \<times> bool \<Rightarrow> 'f \<times> nat \<times> bool" where
  "sample_pick_j_body F m w temperature alpha pos k start maxlw r j st =
    (if snd (snd st) then st
     else if \<not> sample_valid F m alpha start j then st
     else
       (let acc = f_add F (fst st)
                    (f_exp F (f_sub F (sample_lw F m w temperature alpha pos k j) maxlw))
        in (acc, j, f_le F r acc)))"

text \<open>
  The backward sampling loop \<open>while (1)\<close>, entered with \<open>pos \<noteq> 0\<close>; the state carries
  the random seed.  As in \<open>backtrack\<close>, \<open>out\<close> is the written part of \<open>out_b_cp\<close>.
\<close>

function sample_backward ::
  "'f fops \<Rightarrow> npycrf_model_t \<Rightarrow> npycrf_work_t \<Rightarrow> 'f \<Rightarrow> 'f list \<Rightarrow> nat \<Rightarrow> nat \<Rightarrow> nat \<Rightarrow> u32 \<Rightarrow>
     u16 list \<Rightarrow> int + u16 list" where
  "sample_backward F m w temperature alpha n_cp pos k seed out =
    (let out1 = out @ [of_nat pos] in
       if pos = 0 then Inr out1
       else
         (let L = unat (max_word_len m);
              start = nat ((int pos - int k) mod 65536)
          in if start = 0 then Inr (out1 @ [0])
             else
               (let jmax = (if start \<le> L then start else L);
                    mx = fold (sample_max_body F m w temperature alpha pos k start) [1..<jmax + 1]
                           (f_neg_inf F, 0);
                    maxlw = fst mx
                in if snd mx = 0 \<or> f_eq F maxlw (f_neg_inf F) then Inl (- 22)
                   else
                     (let sm = fold (sample_sum_body F m w temperature alpha pos k start maxlw)
                                 [1..<jmax + 1] (f_zero F)
                      in if \<not> f_lt F (f_zero F) sm \<or> f_isnan F sm \<or> f_isinf F sm then Inl (- 22)
                         else
                           (let seed' = xs32 seed;
                                r = f_mul F (xs32_u01 F seed') sm;
                                pk = fold (sample_pick_j_body F m w temperature alpha pos k start
                                             maxlw r) [1..<jmax + 1] (f_zero F, 1, False);
                                pick = fst (snd pk)
                            in if length out1 > n_cp + 1 then Inl (- 23)
                               else sample_backward F m w temperature alpha n_cp start pick seed'
                                      out1)))))"
  by pat_completeness auto
termination
proof (relation "measure (\<lambda>(F, m, w, temperature, alpha, n_cp, pos, k, seed, out).
                   n_cp + 2 - length out)", goal_cases)
  case 1
  show ?case by simp
next
  case (2 F m w temperature alpha n_cp pos k seed out out1)
  from \<open>out1 = out @ [word_of_nat pos]\<close> \<open>\<not> n_cp + 1 < length out1\<close>
  have "length out < n_cp + 1"
    by simp
  with \<open>out1 = out @ [word_of_nat pos]\<close> show ?case
    by simp
qed

declare sample_backward.simps [simp del]

text \<open>The optional score of the sampled path: the loop over the boundary index \<open>i\<close>.\<close>

definition sample_score_body ::
  "npycrf_model_t \<Rightarrow> npycrf_work_t \<Rightarrow> u16 list \<Rightarrow> nat \<Rightarrow> i32 \<Rightarrow> i32" where
  "sample_score_body m w b i tot =
    (let L = unat (max_word_len m);
         s = unat (b ! i);
         t = unat (b ! (i + 1));
         len_cp = nat ((int t - int s) mod 65536)
     in if len_cp = 0 \<or> len_cp > L then tot
        else
          (let seg = crf_seg_score m w s t;
               idx = span_index t len_cp L;
               prev_id =
                 (if i > 0 then
                    (let ps = unat (b ! (i - 1));
                         pt = unat (b ! i);
                         plen = nat ((int pt - int ps) mod 65536)
                     in if plen > 0 \<and> plen \<le> L then span_id w ! span_index pt plen L
                        else NPYCRF_ID_BOS)
                  else NPYCRF_ID_BOS);
               add = edge_add m prev_id (span_id w ! idx) (span_luni w ! idx)
           in tot + (seg + add)))"

definition sample_finish ::
  "'f fops \<Rightarrow> npycrf_model_t \<Rightarrow> npycrf_work_t \<Rightarrow> 'f \<Rightarrow> u32 \<Rightarrow> nat \<Rightarrow> nat \<Rightarrow> 'f list \<Rightarrow> decode_result" where
  "sample_finish F m w temperature seed n_cp out_b_cap alpha =
    (let L = unat (max_word_len m);
         L1 = L + 1
     in if n_cp = 0 then Decoded [0, 0] (scast (bos_to1 (crf m)))
        else
          (let kmax_end = (if n_cp \<le> L then n_cp else L);
               logZ = fold (\<lambda>k z. logsumexp2 F z (alpha ! (n_cp * L1 + k))) [1..<kmax_end + 1]
                        (f_neg_inf F)
           in if f_eq F logZ (f_neg_inf F) then Error (- 20)
              else
                (let seed1 = xs32 seed;
                     u = xs32_u01 F seed1;
                     pk = fold (sample_pick_k_body F alpha (n_cp * L1) logZ u) [1..<kmax_end + 1]
                            (f_zero F, 1, False);
                     cur_k = fst (snd pk)
                 in if out_b_cap < n_cp + 1 then Error (- 21)
                    else
                      (case sample_backward F m w temperature alpha n_cp n_cp cur_k seed1 [] of
                         Inl e \<Rightarrow> Error e
                       | Inr out \<Rightarrow>
                           (let b = rev out in
                              if b ! 0 \<noteq> 0 \<or> b ! (length b - 1) \<noteq> of_nat n_cp then Error (- 24)
                              else Decoded b
                                     (fold (sample_score_body m w b) [0..<length b - 1]
                                        (scast (bos_to1 (crf m)))))))))"

text \<open>
  \<open>npycrf_decode_sample\<close> with non-null arguments (\<open>out_sample_score\<close> included);
  \<open>pad\<close> is the alignment padding of the caller's sample buffer.
\<close>

definition npycrf_decode_sample ::
  "'f fops \<Rightarrow> npycrf_model_t \<Rightarrow> u8 list \<Rightarrow> npycrf_work_t \<Rightarrow> nat \<Rightarrow> nat \<Rightarrow> 'f \<Rightarrow> u32 \<Rightarrow> nat \<Rightarrow>
     decode_result option" where
  "npycrf_decode_sample F model utf8 work pad sample_buf_size temperature0 seed out_b_cap =
    (if sample_buf_size = 0 then Some (Error (- 1))
     else if max_word_len model = 0 then Some (Error (- 1))
     else
       (let temperature =
              (if \<not> f_lt F (f_zero F) temperature0 \<or> f_isnan F temperature0 \<or> f_isinf F temperature0
               then f_one F else temperature0)
        in if w_max_n_cp work = 0 then Some (Error (- 2))
           else
             (let r = npycrf_utf8_make_offsets utf8 (unat (w_max_n_cp work) + 1);
                  n_cp_sz = fst r;
                  off = snd r
              in if n_cp_sz = 0 then Some (Error (- 3))
                 else if n_cp_sz > unat (w_max_n_cp work) then Some (Error (- 3))
                 else
                   (let n_cp = n_cp_sz; L = unat (max_word_len model) in
                      if L > unat (w_max_word_len work) then Some (Error (- 4))
                      else if out_b_cap < 2 then Some (Error (- 5))
                      else
                        (case precompute_emissions model utf8 off n_cp (work\<lparr> cp_off := off \<rparr>) of
                           Inl e \<Rightarrow> Some (Error (- 10))
                         | Inr we \<Rightarrow>
                            (case precompute_spans model utf8 off n_cp we of
                               None \<Rightarrow> None
                             | Some (Inl e) \<Rightarrow> Some (Error (- 11))
                             | Some (Inr ws) \<Rightarrow>
                                 if sample_buf_size < pad + (n_cp + 1) * (L + 1) * 8
                                 then Some (Error (- 12))
                                 else Some (sample_finish F model ws temperature seed n_cp out_b_cap
                                              (sample_forward F model ws temperature n_cp))))))))"

section \<open>Binary model loader (tools/mmjp_model.c)\<close>

text \<open>
  The file is the list of its bytes; a read consumes a prefix and yields the rest, or
  fails when the file is too short (\<open>fread\<close> returning fewer items).  Multi-byte
  values are little-endian.
\<close>

definition rd_u32 :: "u8 list \<Rightarrow> (u32 \<times> u8 list) option" where
  "rd_u32 f =
    (if length f < 4 then None
     else Some (ucast (f ! 0) OR push_bit 8 (ucast (f ! 1)) OR push_bit 16 (ucast (f ! 2)) OR
                push_bit 24 (ucast (f ! 3)), drop 4 f))"

definition rd_i16 :: "u8 list \<Rightarrow> (i16 \<times> u8 list) option" where
  "rd_i16 f =
    (if length f < 2 then None
     else Some (ucast (f ! 0) OR push_bit 8 (ucast (f ! 1)), drop 2 f))"

text \<open>\<open>fread(buf, 1, n, f)\<close>: exactly \<open>n\<close> bytes, or failure.\<close>

definition rd_bytes :: "nat \<Rightarrow> u8 list \<Rightarrow> (u8 list \<times> u8 list) option" where
  "rd_bytes n f = (if length f < n then None else Some (take n f, drop n f))"

text \<open>\<open>n\<close> items read one after the other with the reader \<open>rd\<close>.\<close>

fun rd_array :: "(u8 list \<Rightarrow> ('a \<times> u8 list) option) \<Rightarrow> nat \<Rightarrow> u8 list \<Rightarrow> ('a list \<times> u8 list) option" where
  "rd_array rd 0 f = Some ([], f)"
| "rd_array rd (Suc n) f =
     (case rd f of
        None \<Rightarrow> None
      | Some (x, f') \<Rightarrow>
          (case rd_array rd n f' of
             None \<Rightarrow> None
           | Some (xs, f'') \<Rightarrow> Some (x # xs, f'')))"

text \<open>One record \<open>{ u32 lo; u32 hi; u8 class_id; u8 pad[3] }\<close> of the range table.\<close>

definition rd_cc_range :: "u8 list \<Rightarrow> (npycrf_cc_range_t \<times> u8 list) option" where
  "rd_cc_range f =
    (case rd_u32 f of
       None \<Rightarrow> None
     | Some (lo, f1) \<Rightarrow>
        (case rd_u32 f1 of
           None \<Rightarrow> None
         | Some (hi, f2) \<Rightarrow>
            (case rd_bytes 4 f2 of
               None \<Rightarrow> None
             | Some (buf4, f3) \<Rightarrow>
                 Some (\<lparr> cr_lo = lo, cr_hi = hi, cr_class_id = buf4 ! 0 \<rparr>, f3))))"

text \<open>A read that fails returns the error code \<open>e\<close> of its stage.\<close>

definition rd_or :: "int \<Rightarrow> ('a \<times> u8 list) option \<Rightarrow> int + ('a \<times> u8 list)" where
  "rd_or e r = (case r of None \<Rightarrow> Inl e | Some v \<Rightarrow> Inr v)"

definition bind_rd :: "int + 'a \<Rightarrow> ('a \<Rightarrow> int + 'b) \<Rightarrow> int + 'b" where
  "bind_rd x k = (case x of Inl e \<Rightarrow> Inl e | Inr v \<Rightarrow> k v)"

definition MMJP_MODEL_MAGIC :: "u8 list" where
  "MMJP_MODEL_MAGIC = [0x4D, 0x4D, 0x4A, 0x50, 0x76, 0x32, 0, 0]"

definition MMJP_MODEL_MAGIC_V1 :: "u8 list" where
  "MMJP_MODEL_MAGIC_V1 = [0x4D, 0x4D, 0x4A, 0x50, 0x76, 0x31, 0, 0]"

definition MMJP_MODEL_VERSION :: u32 where "MMJP_MODEL_VERSION = 2"
definition MMJP_MODEL_VERSION_V1 :: u32 where "MMJP_MODEL_VERSION_V1 = 1"
definition MMJP_DA_INDEX_BYTES :: u32 where "MMJP_DA_INDEX_BYTES = 4"

record mmjp_loaded_model_t =
  lm_m :: npycrf_model_t
  cc_ranges_owned :: "npycrf_cc_range_t list option"
  cc_ranges_count :: u32
  owned_bytes :: nat

text \<open>The scalar fields of the header, in file order.\<close>

record mmjp_header =
  h_is_v1 :: bool
  h_da_cap :: u32
  h_vocab :: u32
  h_max_word_len :: u32
  h_unk_base :: i16
  h_unk_per_cp :: i16
  h_lambda0 :: i16
  h_trans00 :: i16
  h_trans01 :: i16
  h_trans10 :: i16
  h_trans11 :: i16
  h_bos_to1 :: i16
  h_feat_count :: u32
  h_bigram_size :: u32
  h_flags :: u32
  h_cc_mode :: u8
  h_cc_fallback :: u8
  h_cc_range_count :: u32

text \<open>
  The fields that only version 2 stores.  For a version 1 file they keep the values
  the loader initialises them with: \<open>flags = 0\<close>, \<open>cc_mode = NPYCRF_CC_MODE_UTF8LEN\<close>,
  \<open>cc_fallback = NPYCRF_CC_MODE_ASCII\<close>, \<open>cc_range_count = 0\<close>.
\<close>

definition load_v2_fields :: "bool \<Rightarrow> u8 list \<Rightarrow> int + ((u32 \<times> u8 \<times> u8 \<times> u32) \<times> u8 list)" where
  "load_v2_fields is_v1 f =
    (if \<not> is_v1 then
       bind_rd (rd_or (- 19) (rd_u32 f)) (\<lambda>(fl, f1).
       bind_rd (rd_or (- 19) (rd_bytes 4 f1)) (\<lambda>(buf4, f2).
       bind_rd (rd_or (- 19) (rd_u32 f2)) (\<lambda>(cnt, f3).
         Inr ((fl, buf4 ! 0, buf4 ! 1, cnt), f3))))
     else Inr ((0, of_nat NPYCRF_CC_MODE_UTF8LEN, of_nat NPYCRF_CC_MODE_ASCII, 0), f))"

definition load_header :: "u8 list \<Rightarrow> int + (mmjp_header \<times> u8 list)" where
  "load_header f0 =
    bind_rd (rd_or (- 11) (rd_bytes 8 f0)) (\<lambda>(magic, f1).
      if magic \<noteq> MMJP_MODEL_MAGIC \<and> magic \<noteq> MMJP_MODEL_MAGIC_V1 then Inl (- 12)
      else
        (let is_v1 = (magic \<noteq> MMJP_MODEL_MAGIC) in
         bind_rd (rd_or (- 13) (rd_u32 f1)) (\<lambda>(version, f2).
         bind_rd (rd_or (- 13) (rd_u32 f2)) (\<lambda>(da_index_bytes, f3).
         bind_rd (rd_or (- 13) (rd_u32 f3)) (\<lambda>(da_cap, f4).
         bind_rd (rd_or (- 13) (rd_u32 f4)) (\<lambda>(vocab, f5).
         bind_rd (rd_or (- 13) (rd_u32 f5)) (\<lambda>(mwl, f6).
           if version \<noteq> (if is_v1 then MMJP_MODEL_VERSION_V1 else MMJP_MODEL_VERSION)
             then Inl (- 14)
           else if da_index_bytes \<noteq> MMJP_DA_INDEX_BYTES then Inl (- 15)
           else if da_cap < 2 \<or> vocab = 0 \<or> mwl = 0 then Inl (- 16)
           else
             bind_rd (rd_or (- 17) (rd_i16 f6)) (\<lambda>(ub, f7).
             bind_rd (rd_or (- 17) (rd_i16 f7)) (\<lambda>(up, f8).
             bind_rd (rd_or (- 17) (rd_i16 f8)) (\<lambda>(l0, f9).
             bind_rd (rd_or (- 18) (rd_i16 f9)) (\<lambda>(t00, f10).
             bind_rd (rd_or (- 18) (rd_i16 f10)) (\<lambda>(t01, f11).
             bind_rd (rd_or (- 18) (rd_i16 f11)) (\<lambda>(t10, f12).
             bind_rd (rd_or (- 18) (rd_i16 f12)) (\<lambda>(t11, f13).
             bind_rd (rd_or (- 18) (rd_i16 f13)) (\<lambda>(b1, f14).
             bind_rd (rd_or (- 19) (rd_u32 f14)) (\<lambda>(fc, f15).
             bind_rd (rd_or (- 19) (rd_u32 f15)) (\<lambda>(bs, f16).
             bind_rd (load_v2_fields is_v1 f16) (\<lambda>((fl, cm, cf, cnt), f17).
               Inr (\<lparr> h_is_v1 = is_v1, h_da_cap = da_cap, h_vocab = vocab,
                       h_max_word_len = mwl, h_unk_base = ub, h_unk_per_cp = up,
                       h_lambda0 = l0, h_trans00 = t00, h_trans01 = t01, h_trans10 = t10,
                       h_trans11 = t11, h_bos_to1 = b1, h_feat_count = fc,
                       h_bigram_size = bs, h_flags = fl, h_cc_mode = cm,
                       h_cc_fallback = cf, h_cc_range_count = cnt \<rparr>, f17)))))))))))))))))))"

text \<open>An optional table of \<open>n\<close> keys and \<open>n\<close> weights: absent (\<open>NULL\<close>) when \<open>n = 0\<close>.\<close>

definition load_table ::
  "int \<Rightarrow> int \<Rightarrow> u32 \<Rightarrow> u8 list \<Rightarrow> int + ((u32 list option \<times> i16 list option) \<times> u8 list)" where
  "load_table e_key e_val n f =
    (if n > 0 then
       bind_rd (rd_or e_key (rd_array rd_u32 (unat n) f)) (\<lambda>(ks, f1).
       bind_rd (rd_or e_val (rd_array rd_i16 (unat n) f1)) (\<lambda>(vs, f2).
         Inr ((Some ks, Some vs), f2)))
     else Inr ((None, None), f))"

text \<open>
  \<open>mmjp_model_load_bin\<close>; the argument \<open>None\<close> is a path that \<open>fopen\<close> cannot open.
  \<open>malloc\<close> is taken to succeed.  The trie arrays are stored as \<open>int32_t\<close>.
\<close>

definition mmjp_model_load_bin :: "u8 list option \<Rightarrow> int + mmjp_loaded_model_t" where
  "mmjp_model_load_bin file =
    (case file of
       None \<Rightarrow> Inl (- 10)
     | Some f0 \<Rightarrow>
        bind_rd (load_header f0) (\<lambda>(h, f1).
        bind_rd (rd_or (- 21) (rd_array rd_u32 (unat (h_da_cap h)) f1)) (\<lambda>(base_u, f2).
        bind_rd (rd_or (- 22) (rd_array rd_u32 (unat (h_da_cap h)) f2)) (\<lambda>(check_u, f3).
        bind_rd (rd_or (- 23) (rd_array rd_i16 (unat (h_vocab h)) f3)) (\<lambda>(unigram, f4).
        bind_rd (load_table (- 24) (- 25) (h_bigram_size h) f4) (\<lambda>((bkey, bval), f5).
        bind_rd (load_table (- 26) (- 27) (h_feat_count h) f5) (\<lambda>((fkey, fval), f6).
        bind_rd (if \<not> h_is_v1 h \<and> h_cc_range_count h > 0
                 then bind_rd (rd_or (- 28) (rd_array rd_cc_range (unat (h_cc_range_count h)) f6))
                        (\<lambda>(rs, f7). Inr (Some rs, f7))
                 else Inr (None, f6)) (\<lambda>(ranges, f7).
          Inr \<lparr> lm_m =
                  \<lparr> crf = \<lparr> trans00 = h_trans00 h, trans01 = h_trans01 h,
                            trans10 = h_trans10 h, trans11 = h_trans11 h,
                            bos_to1 = h_bos_to1 h, feat_key = fkey, feat_w = fval,
                            feat_count = h_feat_count h \<rparr>,
                    lm = \<lparr> lm_trie = \<lparr> ro_base = Some (map sint base_u),
                                        ro_check = Some (map sint check_u),
                                        ro_capacity = unat (h_da_cap h) \<rparr>,
                           logp_uni = Some unigram, vocab_size = h_vocab h,
                           bigram_key = bkey, logp_bi = bval,
                           bigram_size = h_bigram_size h,
                           unk_base = h_unk_base h, unk_per_cp = h_unk_per_cp h \<rparr>,
                    lambda0 = h_lambda0 h,
                    max_word_len = ucast (h_max_word_len h),
                    flags = h_flags h,
                    cc = \<lparr> cc_mode = unat (h_cc_mode h), cc_fallback = unat (h_cc_fallback h),
                           cc_ranges = ranges, cc_range_count = h_cc_range_count h \<rparr> \<rparr>,
                cc_ranges_owned = ranges,
                cc_ranges_count = h_cc_range_count h,
                owned_bytes =
                  unat (h_da_cap h) * 4 + unat (h_da_cap h) * 4 + unat (h_vocab h) * 2 +
                  unat (h_bigram_size h) * 4 + unat (h_bigram_size h) * 2 +
                  unat (h_feat_count h) * 4 + unat (h_feat_count h) * 2 +
                  unat (h_cc_range_count h) * 12 \<rparr>))))))))"

section \<open>Lossless whitespace codec (mmjp_lossless.c)\<close>

definition MMJP_LOSSLESS_ESCAPE :: u32 where "MMJP_LOSSLESS_ESCAPE = 0x2580"
definition MMJP_LOSSLESS_SPACE :: u32 where "MMJP_LOSSLESS_SPACE = 0x2581"
definition MMJP_LOSSLESS_TAB :: u32 where "MMJP_LOSSLESS_TAB = 0x2582"
definition MMJP_LOSSLESS_LF :: u32 where "MMJP_LOSSLESS_LF = 0x2583"
definition MMJP_LOSSLESS_CR :: u32 where "MMJP_LOSSLESS_CR = 0x2584"

text \<open>\<open>utf8_encode_cp\<close>: the bytes written to \<open>out\<close>; their number is the return value.\<close>

definition utf8_encode_cp :: "u32 \<Rightarrow> u8 list" where
  "utf8_encode_cp cp =
    (if cp \<le> 0x7F then [ucast cp]
     else if cp \<le> 0x7FF then
       [0xC0 OR ucast (drop_bit 6 cp AND 0x1F), 0x80 OR ucast (cp AND 0x3F)]
     else if cp \<le> 0xFFFF then
       [0xE0 OR ucast (drop_bit 12 cp AND 0x0F), 0x80 OR ucast (drop_bit 6 cp AND 0x3F),
        0x80 OR ucast (cp AND 0x3F)]
     else
       [0xF0 OR ucast (drop_bit 18 cp AND 0x07), 0x80 OR ucast (drop_bit 12 cp AND 0x3F),
        0x80 OR ucast (drop_bit 6 cp AND 0x3F), 0x80 OR ucast (cp AND 0x3F)])"

text \<open>
  \<open>utf8_decode_cp\<close> of this file: \<open>Some (cp, adv)\<close>, or \<open>None\<close> for the return value
  0.  It checks the shape of the sequence only (no overlong or range check).
\<close>

definition utf8_decode_cp :: "u8 list \<Rightarrow> nat \<Rightarrow> (u32 \<times> nat) option" where
  "utf8_decode_cp s pos =
    (if pos \<ge> length s then None
     else let b0 = s ! pos in
       if b0 < 0x80 then Some (ucast b0, 1)
       else if b0 AND 0xE0 = 0xC0 then
         (if pos + 2 > length s then None
          else let b1 = s ! (pos + 1) in
            if b1 AND 0xC0 \<noteq> 0x80 then None
            else Some (push_bit 6 (ucast (b0 AND 0x1F)) OR ucast (b1 AND 0x3F), 2))
       else if b0 AND 0xF0 = 0xE0 then
         (if pos + 3 > length s then None
          else let b1 = s ! (pos + 1); b2 = s ! (pos + 2) in
            if b1 AND 0xC0 \<noteq> 0x80 \<or> b2 AND 0xC0 \<noteq> 0x80 then None
            else Some (push_bit 12 (ucast (b0 AND 0x0F)) OR push_bit 6 (ucast (b1 AND 0x3F)) OR
                       ucast (b2 AND 0x3F), 3))
       else if b0 AND 0xF8 = 0xF0 then
         (if pos + 4 > length s then None
          else let b1 = s ! (pos + 1); b2 = s ! (pos + 2); b3 = s ! (pos + 3) in
            if b1 AND 0xC0 \<noteq> 0x80 \<or> b2 AND 0xC0 \<noteq> 0x80 \<or> b3 AND 0xC0 \<noteq> 0x80 then None
            else Some (push_bit 18 (ucast (b0 AND 0x07)) OR push_bit 12 (ucast (b1 AND 0x3F)) OR
                       push_bit 6 (ucast (b2 AND 0x3F)) OR ucast (b3 AND 0x3F), 4))
       else None)"

lemma utf8_decode_cp_adv:
  "utf8_decode_cp s pos = Some (cp, adv) \<Longrightarrow> 0 < adv \<and> pos + adv \<le> length s"
  by (auto simp: utf8_decode_cp_def Let_def split: if_splits)

definition is_meta_char :: "u32 \<Rightarrow> bool" where
  "is_meta_char cp = (cp \<ge> MMJP_LOSSLESS_ESCAPE \<and> cp \<le> MMJP_LOSSLESS_CR)"

text \<open>
  The destination buffer is \<open>None\<close> for \<open>dst = NULL\<close> and otherwise the list of its
  \<open>dst_cap\<close> bytes.  \<open>buf_put\<close> is the guarded \<open>memcpy(dst + out_len, bytes, n)\<close>:
  it happens only when the bytes fit.  \<open>buf_put1\<close> is the guarded store of one byte.
\<close>

fun put_bytes :: "u8 list \<Rightarrow> nat \<Rightarrow> u8 list \<Rightarrow> u8 list" where
  "put_bytes d off [] = d"
| "put_bytes d off (b # bs) = put_bytes (d[off := b]) (off + 1) bs"

definition buf_put :: "u8 list option \<Rightarrow> nat \<Rightarrow> u8 list \<Rightarrow> u8 list option" where
  "buf_put dst out_len bytes =
    (case dst of
       None \<Rightarrow> None
     | Some d \<Rightarrow> if out_len + length bytes \<le> length d then Some (put_bytes d out_len bytes)
                 else Some d)"

definition buf_put1 :: "u8 list option \<Rightarrow> nat \<Rightarrow> u8 \<Rightarrow> u8 list option" where
  "buf_put1 dst out_len b =
    (case dst of
       None \<Rightarrow> None
     | Some d \<Rightarrow> if out_len < length d then Some (d[out_len := b]) else Some d)"

text \<open>The loop of \<open>mmjp_lossless_encode\<close> at \<open>(pos, out_len)\<close>.\<close>

function encode_loop :: "u8 list \<Rightarrow> bool \<Rightarrow> nat \<Rightarrow> nat \<Rightarrow> u8 list option \<Rightarrow> nat \<times> u8 list option" where
  "encode_loop src include_newlines pos out_len dst =
    (if pos < length src then
       (case utf8_decode_cp src pos of
          None \<Rightarrow>
            encode_loop src include_newlines (pos + 1) (out_len + 1)
              (buf_put1 dst out_len (src ! pos))
        | Some (cp, adv) \<Rightarrow>
            if cp = 0x20 then
              encode_loop src include_newlines (pos + adv)
                (out_len + length (utf8_encode_cp MMJP_LOSSLESS_SPACE))
                (buf_put dst out_len (utf8_encode_cp MMJP_LOSSLESS_SPACE))
            else if cp = 0x09 then
              encode_loop src include_newlines (pos + adv)
                (out_len + length (utf8_encode_cp MMJP_LOSSLESS_TAB))
                (buf_put dst out_len (utf8_encode_cp MMJP_LOSSLESS_TAB))
            else if include_newlines \<and> cp = 0x0A then
              encode_loop src include_newlines (pos + adv)
                (out_len + length (utf8_encode_cp MMJP_LOSSLESS_LF))
                (buf_put dst out_len (utf8_encode_cp MMJP_LOSSLESS_LF))
            else if include_newlines \<and> cp = 0x0D then
              encode_loop src include_newlines (pos + adv)
                (out_len + length (utf8_encode_cp MMJP_LOSSLESS_CR))
                (buf_put dst out_len (utf8_encode_cp MMJP_LOSSLESS_CR))
            else if is_meta_char cp then
              encode_loop src include_newlines (pos + adv)
                (out_len + length (utf8_encode_cp MMJP_LOSSLESS_ESCAPE @ utf8_encode_cp cp))
                (buf_put dst out_len (utf8_encode_cp MMJP_LOSSLESS_ESCAPE @ utf8_encode_cp cp))
            else
              encode_loop src include_newlines (pos + adv) (out_len + adv)
                (buf_put dst out_len (take adv (drop pos src))))
     else (out_len, buf_put1 dst out_len 0))"
  by pat_completeness auto
termination
  by (relation "measure (\<lambda>(src, nl, pos, out_len, dst). length src - pos)")
     (auto dest: utf8_decode_cp_adv)

declare encode_loop.simps [simp del]

text \<open>
  \<open>mmjp_lossless_encode\<close> with a non-null source: the return value and the
  destination buffer after the call.
\<close>

definition mmjp_lossless_encode :: "u8 list \<Rightarrow> u8 list option \<Rightarrow> bool \<Rightarrow> nat \<times> u8 list option" where
  "mmjp_lossless_encode src dst include_newlines = encode_loop src include_newlines 0 0 dst"

text \<open>
  The escape case of the decoder: the bytes to emit and the advance after the escape
  character, given the position \<open>pos\<close> just behind it.
\<close>

definition decode_escape :: "u8 list \<Rightarrow> nat \<Rightarrow> u8 list \<times> nat" where
  "decode_escape src pos =
    (if pos < length src then
       (case utf8_decode_cp src pos of
          Some (next_cp, next_adv) \<Rightarrow> (utf8_encode_cp next_cp, next_adv)
        | None \<Rightarrow> (utf8_encode_cp MMJP_LOSSLESS_ESCAPE, 0))
     else (utf8_encode_cp MMJP_LOSSLESS_ESCAPE, 0))"

function decode_loop :: "u8 list \<Rightarrow> nat \<Rightarrow> nat \<Rightarrow> u8 list option \<Rightarrow> nat \<times> u8 list option" where
  "decode_loop src pos out_len dst =
    (if pos < length src then
       (case utf8_decode_cp src pos of
          None \<Rightarrow> decode_loop src (pos + 1) (out_len + 1) (buf_put1 dst out_len (src ! pos))
        | Some (cp, adv) \<Rightarrow>
            if cp = MMJP_LOSSLESS_SPACE then
              decode_loop src (pos + adv) (out_len + 1) (buf_put dst out_len [0x20])
            else if cp = MMJP_LOSSLESS_TAB then
              decode_loop src (pos + adv) (out_len + 1) (buf_put dst out_len [0x09])
            else if cp = MMJP_LOSSLESS_LF then
              decode_loop src (pos + adv) (out_len + 1) (buf_put dst out_len [0x0A])
            else if cp = MMJP_LOSSLESS_CR then
              decode_loop src (pos + adv) (out_len + 1) (buf_put dst out_len [0x0D])
            else if cp = MMJP_LOSSLESS_ESCAPE then
              decode_loop src (pos + adv + snd (decode_escape src (pos + adv)))
                (out_len + length (fst (decode_escape src (pos + adv))))
                (buf_put dst out_len (fst (decode_escape src (pos + adv))))
            else
              decode_loop src (pos + adv) (out_len + adv)
                (buf_put dst out_len (take adv (drop pos src))))
     else (out_len, buf_put1 dst out_len 0))"
  by pat_completeness auto
termination
  by (relation "measure (\<lambda>(src, pos, out_len, dst). length src - pos)")
     (auto dest: utf8_decode_cp_adv)

declare decode_loop.simps [simp del]

definition mmjp_lossless_decode :: "u8 list \<Rightarrow> u8 list option \<Rightarrow> nat \<times> u8 list option" where
  "mmjp_lossless_decode src dst = decode_loop src 0 0 dst"

text \<open>
  Valid UTF-8, as the strict decoder \<open>utf8_decode1\<close> of the library accepts it: the
  input splits into well-formed code points from byte \<open>i\<close> on.
\<close>

function valid_utf8_from :: "u8 list \<Rightarrow> nat \<Rightarrow> bool" where
  "valid_utf8_from s i =
    (if i < length s then
       (case utf8_decode1 s i of
          None \<Rightarrow> False
        | Some (i', cp) \<Rightarrow> valid_utf8_from s i')
     else True)"
  by pat_completeness auto
termination
  by (relation "measure (\<lambda>(s, i). length s - i)") (auto dest: utf8_decode1_advances)

declare valid_utf8_from.simps [simp del]

definition valid_utf8 :: "u8 list \<Rightarrow> bool" where
  "valid_utf8 s = valid_utf8_from s 0"

section \<open>Concrete inputs\<close>

text \<open>
  A small model: the dictionary holds \<open>a\<close> (id 0) and \<open>ab\<close> (id 1); the trie arrays are
  the ones the insertion code builds for these two keys (capacity 128).  The CRF has two
  emission features for the class \<open>ALPHA\<close>.
\<close>

definition demo_trie :: da_trie_ro_t where
  "demo_trie =
     \<lparr> ro_base = Some ([0, 1, - 1, - 2] @ replicate 94 0 @ [2, 0, 3] @ replicate 27 0),
       ro_check = Some ([0, 1, 98, 100] @ replicate 94 0 @ [1, 0, 98] @ replicate 27 0),
       ro_capacity = 128 \<rparr>"

definition demo_crf :: npycrf_crf_t where
  "demo_crf =
     \<lparr> trans00 = 3, trans01 = 5, trans10 = 7, trans11 = - 11, bos_to1 = 13,
       feat_key = Some [npycrf_feat_key 0 0 CC_ALPHA 0, npycrf_feat_key 0 1 CC_ALPHA 0],
       feat_w = Some [100, - 200], feat_count = 2 \<rparr>"

definition demo_lm :: npycrf_lm_t where
  "demo_lm =
     \<lparr> lm_trie = demo_trie, logp_uni = Some [- 177, - 177], vocab_size = 2,
       bigram_key = None, logp_bi = None, bigram_size = 0,
       unk_base = - 512, unk_per_cp = - 256 \<rparr>"

definition demo_model :: npycrf_model_t where
  "demo_model =
     \<lparr> crf = demo_crf, lm = demo_lm, lambda0 = 256, max_word_len = 2, flags = 0,
       cc = \<lparr> cc_mode = NPYCRF_CC_MODE_COMPAT, cc_fallback = NPYCRF_CC_MODE_UTF8LEN,
              cc_ranges = None, cc_range_count = 0 \<rparr> \<rparr>"

definition demo_work :: npycrf_work_t where
  "demo_work =
     \<lparr> w_max_n_cp = 8, w_max_word_len = 4, cp_off = [], emit0 = [], emit1 = [],
       pref_emit0 = [], span_id = [], span_luni = [], bp_prevlen = [], dp_ring = [] \<rparr>"

text \<open>
  An idealised \<open>double\<close>: real numbers without rounding, the two infinities and NaN.
  It instantiates the sampler's arithmetic at concrete inputs.
\<close>

datatype xdouble = DFin real | DPosInf | DNegInf | DNaN

fun x_add :: "xdouble \<Rightarrow> xdouble \<Rightarrow> xdouble" where
  "x_add (DFin a) (DFin b) = DFin (a + b)"
| "x_add DNaN _ = DNaN"
| "x_add _ DNaN = DNaN"
| "x_add DPosInf DNegInf = DNaN"
| "x_add DNegInf DPosInf = DNaN"
| "x_add DPosInf _ = DPosInf"
| "x_add _ DPosInf = DPosInf"
| "x_add DNegInf _ = DNegInf"
| "x_add _ DNegInf = DNegInf"

fun x_neg :: "xdouble \<Rightarrow> xdouble" where
  "x_neg (DFin a) = DFin (- a)"
| "x_neg DPosInf = DNegInf"
| "x_neg DNegInf = DPosInf"
| "x_neg DNaN = DNaN"

fun x_sgn :: "xdouble \<Rightarrow> real" where
  "x_sgn (DFin a) = sgn a"
| "x_sgn DPosInf = 1"
| "x_sgn DNegInf = - 1"
| "x_sgn DNaN = 0"

definition x_signed_inf :: "real \<Rightarrow> xdouble" where
  "x_signed_inf s = (if s > 0 then DPosInf else if s < 0 then DNegInf else DNaN)"

fun x_mul :: "xdouble \<Rightarrow> xdouble \<Rightarrow> xdouble" where
  "x_mul (DFin a) (DFin b) = DFin (a * b)"
| "x_mul DNaN _ = DNaN"
| "x_mul _ DNaN = DNaN"
| "x_mul a b = x_signed_inf (x_sgn a * x_sgn b)"

fun x_div :: "xdouble \<Rightarrow> xdouble \<Rightarrow> xdouble" where
  "x_div (DFin a) (DFin b) = (if b = 0 then x_signed_inf a else DFin (a / b))"
| "x_div DNaN _ = DNaN"
| "x_div _ DNaN = DNaN"
| "x_div (DFin a) _ = DFin 0"
| "x_div a (DFin b) = x_signed_inf (x_sgn a * (if b < 0 then - 1 else 1))"
| "x_div _ _ = DNaN"

fun x_exp :: "xdouble \<Rightarrow> xdouble" where
  "x_exp (DFin a) = DFin (exp a)"
| "x_exp DPosInf = DPosInf"
| "x_exp DNegInf = DFin 0"
| "x_exp DNaN = DNaN"

fun x_log :: "xdouble \<Rightarrow> xdouble" where
  "x_log (DFin a) = (if a > 0 then DFin (ln a) else if a = 0 then DNegInf else DNaN)"
| "x_log DPosInf = DPosInf"
| "x_log DNegInf = DNaN"
| "x_log DNaN = DNaN"

fun x_lt :: "xdouble \<Rightarrow> xdouble \<Rightarrow> bool" where
  "x_lt (DFin a) (DFin b) = (a < b)"
| "x_lt DNaN _ = False"
| "x_lt _ DNaN = False"
| "x_lt DNegInf b = (b \<noteq> DNegInf)"
| "x_lt a DPosInf = (a \<noteq> DPosInf)"
| "x_lt _ _ = False"

definition x_eq :: "xdouble \<Rightarrow> xdouble \<Rightarrow> bool" where
  "x_eq a b = (a \<noteq> DNaN \<and> a = b)"

definition ideal_fops :: "xdouble fops" where
  "ideal_fops =
     \<lparr> f_neg_inf = DNegInf, f_zero = DFin 0, f_one = DFin 1,
       f_add = x_add, f_sub = (\<lambda>a b. x_add a (x_neg b)), f_mul = x_mul, f_div = x_div,
       f_exp = x_exp, f_log = x_log, f_lt = x_lt,
       f_le = (\<lambda>a b. x_lt a b \<or> x_eq a b), f_eq = x_eq,
       f_isnan = (\<lambda>a. a = DNaN), f_isinf = (\<lambda>a. a = DPosInf \<or> a = DNegInf),
       f_of_int = (\<lambda>i. DFin (of_int i)) \<rparr>"

text \<open>A version 1 model file of 70 bytes: header, a trie of capacity 2 and one unigram.\<close>

definition demo_v1_file :: "u8 list" where
  "demo_v1_file =
     [0x4D, 0x4D, 0x4A, 0x50, 0x76, 0x31, 0, 0,
      1, 0, 0, 0,   4, 0, 0, 0,   2, 0, 0, 0,   1, 0, 0, 0,   2, 0, 0, 0,
      0, 0xFE,   0, 0xFF,   0, 1,
      3, 0,   5, 0,   7, 0,   0xF5, 0xFF,   13, 0,
      0, 0, 0, 0,   0, 0, 0, 0,
      0, 0, 0, 0,   1, 0, 0, 0,
      0, 0, 0, 0,   1, 0, 0, 0,
      0x4F, 0xFF]"


section \<open>Evaluation of concrete inputs\<close>

lemma replicate_num: "replicate (numeral k) x = x # replicate (pred_numeral k) x"
  by (simp add: numeral_eq_Suc)

lemma list_update_num: "(x # xs)[numeral k := v] = x # xs[pred_numeral k := v]"
  by (simp add: numeral_eq_Suc)

lemma upt_num: "[i..<numeral n] = (if i < numeral n then i # [Suc i..<numeral n] else [])"
  by (simp add: upt_rec)

lemma upt_one: "[i..<Suc 0] = (if i = 0 then [0] else [])"
  by (simp add: upt_rec)

lemmas eval_list = replicate_num list_update_num upt_num upt_one

lemmas cc_consts =
  CC_OTHER_def CC_SPACE_def CC_DIGIT_def CC_ALPHA_def CC_HIRAGANA_def CC_KATAKANA_def
  CC_KANJI_def CC_FULLWIDTH_def CC_SYMBOL_def CC_UTF8_2BYTE_def CC_UTF8_3BYTE_def
  CC_UTF8_4BYTE_def CC_BOS_def CC_EOS_def


section \<open>The segment score and its naive recomputation\<close>

lemma pref_body_emit0 [simp]: "emit0 (pref_body i w) = emit0 w"
  by (simp add: pref_body_def)

lemma pref_body_emit1 [simp]: "emit1 (pref_body i w) = emit1 w"
  by (simp add: pref_body_def)

lemma fold_pref_body_emit:
  "emit0 (fold pref_body ns w) = emit0 w \<and> emit1 (fold pref_body ns w) = emit1 w"
  by (induction ns arbitrary: w) auto

lemma fold_pref_body_length:
  "length (pref_emit0 (fold pref_body ns w)) = length (pref_emit0 w)"
  by (induction ns arbitrary: w) (auto simp: pref_body_def)

lemma fold_pref_body_sums:
  "n < length (pref_emit0 w) \<Longrightarrow> i \<le> n \<Longrightarrow>
   pref_emit0 (fold pref_body [0..<n] w) ! i =
     pref_emit0 w ! 0 + (\<Sum>j<i. scast (emit0 w ! j))"
proof (induction n arbitrary: i)
  case 0
  then show ?case by simp
next
  case (Suc n)
  define v where "v = fold pref_body [0..<n] w"
  have step: "fold pref_body [0..<Suc n] w = pref_body n v"
    by (simp add: v_def)
  have len: "length (pref_emit0 v) = length (pref_emit0 w)"
    unfolding v_def by (rule fold_pref_body_length)
  have em: "emit0 v = emit0 w"
    by (simp add: v_def fold_pref_body_emit)
  show ?case
  proof (cases "i = Suc n")
    case True
    have "pref_emit0 v ! n = pref_emit0 w ! 0 + (\<Sum>j<n. scast (emit0 w ! j))"
      using Suc.IH[of n] Suc.prems by (simp add: v_def)
    then show ?thesis
      unfolding step using True Suc.prems len em by (simp add: pref_body_def)
  next
    case False
    then have "i \<le> n" using Suc.prems by simp
    then have "pref_emit0 v ! i = pref_emit0 w ! 0 + (\<Sum>j<i. scast (emit0 w ! j))"
      using Suc.IH[of i] Suc.prems by (simp add: v_def)
    then show ?thesis
      unfolding step using False Suc.prems len by (simp add: pref_body_def)
  qed
qed

lemma for_loop_emissions_pref:
  "for_loop ns (emissions_body m utf8 off n_cp) w = Inr w' \<Longrightarrow> pref_emit0 w' = pref_emit0 w"
proof (induction ns arbitrary: w)
  case Nil
  then show ?case by simp
next
  case (Cons i ns)
  then show ?case
    by (auto simp: emissions_body_def split: sum.splits option.splits if_splits)
qed

lemma precompute_emissions_pref:
  assumes "precompute_emissions m utf8 off n_cp w0 = Inr w" and "i \<le> n_cp"
  shows "pref_emit0 w ! i = (\<Sum>j<i. scast (emit0 w ! j))"
proof -
  obtain w1 where w1: "for_loop [0..<n_cp] (emissions_body m utf8 off n_cp)
            (w0\<lparr> emit0 := replicate n_cp 0, emit1 := replicate n_cp 0,
                 pref_emit0 := replicate (n_cp + 1) 0 \<rparr>) = Inr w1"
    and w: "w = fold pref_body [0..<n_cp] (w1\<lparr> pref_emit0 := (pref_emit0 w1)[0 := 0] \<rparr>)"
    using assms(1) by (auto simp: precompute_emissions_def split: sum.splits)
  have p1: "pref_emit0 w1 = replicate (n_cp + 1) 0"
    using for_loop_emissions_pref[OF w1] by simp
  let ?w2 = "w1\<lparr> pref_emit0 := (pref_emit0 w1)[0 := 0] \<rparr>"
  have "pref_emit0 (fold pref_body [0..<n_cp] ?w2) ! i =
          pref_emit0 ?w2 ! 0 + (\<Sum>j<i. scast (emit0 ?w2 ! j))"
    by (rule fold_pref_body_sums) (use p1 assms(2) in auto)
  moreover have "emit0 w = emit0 ?w2"
    unfolding w by (simp add: fold_pref_body_emit)
  ultimately show ?thesis
    unfolding w using p1 by simp
qed

lemma naive_fold_sum:
  "fold (\<lambda>i acc. acc + f i) [a..<b] (z::i32) = z + (\<Sum>i = a..<b. f i)"
proof (induction b)
  case 0
  then show ?case by simp
next
  case (Suc b)
  show ?case
  proof (cases "a \<le> b")
    case True
    then show ?thesis using Suc by (simp add: sum.atLeastLessThan_Suc)
  next
    case False
    then show ?thesis by simp
  qed
qed

lemma sum_lessThan_diff:
  "a \<le> b \<Longrightarrow> (\<Sum>j<b. f j) - (\<Sum>j<a. f j) = (\<Sum>j = a..<(b::nat). (f j :: i32))"
proof (induction b)
  case 0
  then show ?case by simp
next
  case (Suc b)
  show ?case
  proof (cases "a = Suc b")
    case True
    then show ?thesis by simp
  next
    case False
    then have "a \<le> b" using Suc.prems by simp
    then show ?thesis using Suc.IH by (simp add: sum.atLeastLessThan_Suc)
  qed
qed

text \<open>
  Claim C7.  After \<open>precompute_emissions\<close> has filled the workspace for a sentence of
  \<open>n_cp\<close> code points, the score \<open>crf_seg_score\<close> of every span \<open>[s, t)\<close> of length
  \<open>k = t - s \<ge> 2\<close> equals \<open>emit1[s] + trans10 + (emit0[s+1] + ... + emit0[t-1]) +
  (k-2) * trans00 + trans01\<close> with the \<open>emit0\<close> sum recomputed naively, as an equation
  of 32-bit integers: the prefix-sum difference \<open>pref_emit0[t] - pref_emit0[s+1]\<close> is
  that sum.
\<close>

theorem crf_seg_score_naive:
  assumes "precompute_emissions m utf8 off n_cp w0 = Inr w"
    and "s + 2 \<le> t" and "t \<le> n_cp" and "n_cp < 65536"
  shows "crf_seg_score m w s t = naive_seg_score m w s t"
proof -
  have k: "nat ((int t - int s) mod 65536) = t - s"
    using assms(2-4) by (simp add: nat_diff_distrib')  
  have pt: "pref_emit0 w ! t = (\<Sum>j<t. scast (emit0 w ! j))"
    using precompute_emissions_pref[OF assms(1)] assms(3) by simp
  have ps: "pref_emit0 w ! Suc s = (\<Sum>j<Suc s. scast (emit0 w ! j))"
    using precompute_emissions_pref[OF assms(1), of "s + 1"] assms(2,3) by simp
  have "pref_emit0 w ! t - pref_emit0 w ! Suc s = (\<Sum>j = Suc s..<t. scast (emit0 w ! j))"
    unfolding pt ps
    by (rule sum_lessThan_diff) (use assms(2) in simp)
  then have "pref_emit0 w ! t - pref_emit0 w ! (s + 1) = naive_emit0_sum w s t"
    by (simp add: naive_emit0_sum_def naive_fold_sum)
  moreover have "t - s \<noteq> 0" "t - s \<noteq> 1"
    using assms(2) by auto
  ultimately show ?thesis
    unfolding crf_seg_score_def naive_seg_score_def Let_def k
    by (simp only: if_False mult.commute)
qed

lemma demo_emissions_eval:
  "precompute_emissions demo_model [0x61, 0x62, 0x63] [0, 1, 2, 3] 3 demo_work =
     Inr (demo_work\<lparr> emit0 := [100, 100, 100], emit1 := [- 200, - 200, - 200],
                pref_emit0 := [0, 100, 200, 300] \<rparr>)"
  by (simp add: precompute_emissions_def emissions_body_def class_at_def utf8_decode1_def
      char_class_def npycrf_char_class_cp_def is_lossless_meta_def char_class_ascii_def
      pref_body_def demo_work_def demo_model_def demo_crf_def
      crf_emit_pos_def crf_lookup_w_def npycrf_feat_key_def cc_consts clamp_i16_def
      bsearch_u32.simps eval_list)

theorem crf_seg_score_naive_witness:
  "precompute_emissions demo_model [0x61, 0x62, 0x63] [0, 1, 2, 3] 3 demo_work =
     Inr (demo_work\<lparr> emit0 := [100, 100, 100], emit1 := [- 200, - 200, - 200],
                pref_emit0 := [0, 100, 200, 300] \<rparr>) \<and>
   crf_seg_score demo_model
     (demo_work\<lparr> emit0 := [100, 100, 100], emit1 := [- 200, - 200, - 200],
                pref_emit0 := [0, 100, 200, 300] \<rparr>) 0 3 =
   naive_seg_score demo_model
     (demo_work\<lparr> emit0 := [100, 100, 100], emit1 := [- 200, - 200, - 200],
                pref_emit0 := [0, 100, 200, 300] \<rparr>) 0 3 \<and>
   crf_seg_score demo_model
     (demo_work\<lparr> emit0 := [100, 100, 100], emit1 := [- 200, - 200, - 200],
                pref_emit0 := [0, 100, 200, 300] \<rparr>) 0 3 = 15"
proof -
  have v: "crf_seg_score demo_model
     (demo_work\<lparr> emit0 := [100, 100, 100], emit1 := [- 200, - 200, - 200],
                pref_emit0 := [0, 100, 200, 300] \<rparr>) 0 3 = 15"
    by (simp add: crf_seg_score_def demo_model_def demo_crf_def demo_work_def)
  show ?thesis
    using crf_seg_score_naive[OF demo_emissions_eval, of 0 3] demo_emissions_eval v by simp
qed


section \<open>Empty input\<close>

text \<open>
  Claim C1 says that \<open>npycrf_decode\<close> succeeds on the empty input with the boundaries
  \<open>[0, 0]\<close> and the score \<open>bos_to1\<close>.  \<open>npycrf_utf8_make_offsets\<close> returns 0 for
  the empty input, the value it also returns on error, and \<open>npycrf_decode\<close> answers
  \<open>-3\<close> to it: for every model and workspace that pass the argument checks, the empty
  input is refused, and the branch that writes \<open>[0, 0]\<close> is never reached.
\<close>

theorem npycrf_decode_empty_input:
  "max_word_len m \<noteq> 0 \<Longrightarrow> w_max_n_cp w \<noteq> 0 \<Longrightarrow>
   npycrf_decode m [] w out_b_cap = Some (Error (- 3))"
  by (simp add: npycrf_decode_def npycrf_utf8_make_offsets_def make_offsets_loop.simps)

theorem npycrf_decode_empty_input_witness:
  "max_word_len demo_model \<noteq> 0 \<and> w_max_n_cp demo_work \<noteq> 0 \<and>
   npycrf_decode demo_model [] demo_work 8 = Some (Error (- 3))"
  using npycrf_decode_empty_input[of demo_model demo_work 8]
  by (simp add: demo_model_def demo_work_def)

section \<open>Temperature of the sampler\<close>

text \<open>
  Claim C10.  A temperature that is NaN, infinite or not greater than zero makes
  \<open>npycrf_decode_sample\<close> behave exactly as the temperature 1.0 does, whatever the
  model, the input, the seed and the arithmetic of \<open>double\<close>: same return code, same
  boundaries, same score.
\<close>

theorem npycrf_decode_sample_invalid_temperature:
  "\<not> f_lt F (f_zero F) t \<or> f_isnan F t \<or> f_isinf F t \<Longrightarrow>
   npycrf_decode_sample F m utf8 w pad sample_buf_size t seed out_b_cap =
   npycrf_decode_sample F m utf8 w pad sample_buf_size (f_one F) seed out_b_cap"
  by (simp add: npycrf_decode_sample_def)

theorem npycrf_decode_sample_invalid_temperature_witness:
  "(f_isnan ideal_fops DNaN \<and> f_isinf ideal_fops DPosInf \<and>
    \<not> f_lt ideal_fops (f_zero ideal_fops) (DFin (- 2))) \<and>
   npycrf_decode_sample ideal_fops demo_model [0x61, 0x62] demo_work 0 1024 DNaN 7 8 =
   npycrf_decode_sample ideal_fops demo_model [0x61, 0x62] demo_work 0 1024 (DFin 1) 7 8 \<and>
   npycrf_decode_sample ideal_fops demo_model [0x61, 0x62] demo_work 0 1024 DPosInf 7 8 =
   npycrf_decode_sample ideal_fops demo_model [0x61, 0x62] demo_work 0 1024 (DFin 1) 7 8 \<and>
   npycrf_decode_sample ideal_fops demo_model [0x61, 0x62] demo_work 0 1024 (DFin (- 2)) 7 8 =
   npycrf_decode_sample ideal_fops demo_model [0x61, 0x62] demo_work 0 1024 (DFin 1) 7 8"
proof -
  have h: "f_isnan ideal_fops DNaN" "f_isinf ideal_fops DPosInf"
    "\<not> f_lt ideal_fops (f_zero ideal_fops) (DFin (- 2))" "f_one ideal_fops = DFin 1"
    by (simp_all add: ideal_fops_def)
  show ?thesis
    using h
      npycrf_decode_sample_invalid_temperature[of ideal_fops DNaN demo_model "[0x61, 0x62]" demo_work 0 1024 7 8]
      npycrf_decode_sample_invalid_temperature[of ideal_fops DPosInf demo_model "[0x61, 0x62]" demo_work 0 1024 7 8]
      npycrf_decode_sample_invalid_temperature[of ideal_fops "DFin (- 2)" demo_model "[0x61, 0x62]" demo_work 0 1024 7 8]
    by simp
qed


section \<open>The decoders do not read the character-class table of the model\<close>


















































section \<open>Loading a version 1 model file\<close>

lemma bind_rd_InrE:
  assumes "bind_rd x k = Inr y"
  obtains v where "x = Inr v" and "k v = Inr y"
  using assms by (cases x) (auto simp: bind_rd_def)

lemma load_header_v1:
  assumes "load_header f = Inr (h, f')" and "take 8 f = MMJP_MODEL_MAGIC_V1"
  shows "h_is_v1 h \<and> h_flags h = 0 \<and> h_cc_mode h = of_nat NPYCRF_CC_MODE_UTF8LEN \<and>
         h_cc_fallback h = of_nat NPYCRF_CC_MODE_ASCII \<and> h_cc_range_count h = 0"
proof -
  have neq: "MMJP_MODEL_MAGIC_V1 \<noteq> MMJP_MODEL_MAGIC"
    by (simp add: MMJP_MODEL_MAGIC_V1_def MMJP_MODEL_MAGIC_def)
  have len: "length MMJP_MODEL_MAGIC_V1 = 8"
    by (simp add: MMJP_MODEL_MAGIC_V1_def)
  have rd: "rd_or (- 11) (rd_bytes 8 f) = Inr (MMJP_MODEL_MAGIC_V1, drop 8 f)"
    using assms(2) len by (auto simp: rd_or_def rd_bytes_def)
  from assms(1) show ?thesis
    unfolding load_header_def rd bind_rd_def[of "Inr _"] sum.case prod.case Let_def
    using neq
    apply (simp only: if_False if_True simp_thms split: if_splits)
    apply (elim bind_rd_InrE)
    apply (auto simp: load_v2_fields_def split: prod.splits if_splits elim!: bind_rd_InrE)
    done
qed


text \<open>
  Claim C2 says that a version 1 file is accepted and that the loaded model has
  \<open>flags = 0\<close> and the character-class mode \<open>COMPAT\<close>.  The loader accepts the file
  and sets \<open>flags = 0\<close>, but it leaves the mode at the value it initialises it with,
  \<open>NPYCRF_CC_MODE_UTF8LEN\<close> (with fallback \<open>ASCII\<close> and no ranges): every version 1
  file that loads yields a model whose mode is not \<open>COMPAT\<close>.
\<close>

theorem mmjp_model_load_bin_v1:
  assumes "take 8 f = MMJP_MODEL_MAGIC_V1" and "mmjp_model_load_bin (Some f) = Inr r"
  shows "flags (lm_m r) = 0 \<and>
         cc_mode (cc (lm_m r)) = NPYCRF_CC_MODE_UTF8LEN \<and>
         cc_mode (cc (lm_m r)) \<noteq> NPYCRF_CC_MODE_COMPAT \<and>
         cc_fallback (cc (lm_m r)) = NPYCRF_CC_MODE_ASCII \<and>
         cc_ranges (cc (lm_m r)) = None \<and> cc_range_count (cc (lm_m r)) = 0"
proof -
  from assms(2) obtain h f1 where h: "load_header f = Inr (h, f1)"
    unfolding mmjp_model_load_bin_def option.case
    by (elim bind_rd_InrE) auto
  note hv = load_header_v1[OF h assms(1)]
  from assms(2) show ?thesis
    unfolding mmjp_model_load_bin_def option.case h bind_rd_def[of "Inr _"] sum.case prod.case
    using hv
    by (auto simp: NPYCRF_CC_MODE_UTF8LEN_def NPYCRF_CC_MODE_COMPAT_def NPYCRF_CC_MODE_ASCII_def
          elim!: bind_rd_InrE split: prod.splits if_splits)
qed

lemma rd_array_num:
  "rd_array rd (numeral k) f =
     (case rd f of
        None \<Rightarrow> None
      | Some (x, f') \<Rightarrow>
          (case rd_array rd (pred_numeral k) f' of
             None \<Rightarrow> None
           | Some (xs, f'') \<Rightarrow> Some (x # xs, f'')))"
  by (simp add: numeral_eq_Suc)

lemma demo_v1_header:
  "load_header demo_v1_file =
     Inr (\<lparr> h_is_v1 = True, h_da_cap = 2, h_vocab = 1, h_max_word_len = 2,
             h_unk_base = - 512, h_unk_per_cp = - 256, h_lambda0 = 256,
             h_trans00 = 3, h_trans01 = 5, h_trans10 = 7, h_trans11 = - 11, h_bos_to1 = 13,
             h_feat_count = 0, h_bigram_size = 0, h_flags = 0, h_cc_mode = 1,
             h_cc_fallback = 0, h_cc_range_count = 0 \<rparr>,
          [0, 0, 0, 0, 1, 0, 0, 0, 0, 0, 0, 0, 1, 0, 0, 0, 0x4F, 0xFF])"
  by (simp add: load_header_def demo_v1_file_def bind_rd_def rd_or_def rd_bytes_def rd_u32_def
      rd_i16_def load_v2_fields_def MMJP_MODEL_MAGIC_def MMJP_MODEL_MAGIC_V1_def
      MMJP_MODEL_VERSION_V1_def MMJP_MODEL_VERSION_def MMJP_DA_INDEX_BYTES_def
      NPYCRF_CC_MODE_UTF8LEN_def NPYCRF_CC_MODE_ASCII_def)

lemma demo_v1_load:
  "mmjp_model_load_bin (Some demo_v1_file) =
     Inr \<lparr> lm_m =
             \<lparr> crf = \<lparr> trans00 = 3, trans01 = 5, trans10 = 7, trans11 = - 11, bos_to1 = 13,
                       feat_key = None, feat_w = None, feat_count = 0 \<rparr>,
               lm = \<lparr> lm_trie = \<lparr> ro_base = Some [0, 1], ro_check = Some [0, 1],
                                   ro_capacity = 2 \<rparr>,
                      logp_uni = Some [- 177], vocab_size = 1,
                      bigram_key = None, logp_bi = None, bigram_size = 0,
                      unk_base = - 512, unk_per_cp = - 256 \<rparr>,
               lambda0 = 256, max_word_len = 2, flags = 0,
               cc = \<lparr> cc_mode = 1, cc_fallback = 0, cc_ranges = None, cc_range_count = 0 \<rparr> \<rparr>,
           cc_ranges_owned = None, cc_ranges_count = 0, owned_bytes = 18 \<rparr>"
  unfolding mmjp_model_load_bin_def option.case demo_v1_header
  by (simp add: bind_rd_def rd_or_def rd_u32_def rd_i16_def load_table_def rd_array_num)

theorem mmjp_model_load_bin_v1_witness:
  "take 8 demo_v1_file = MMJP_MODEL_MAGIC_V1 \<and>
   (\<exists>r. mmjp_model_load_bin (Some demo_v1_file) = Inr r \<and>
        flags (lm_m r) = 0 \<and> cc_mode (cc (lm_m r)) = 1 \<and>
        NPYCRF_CC_MODE_COMPAT = 3)"
proof -
  have t: "take 8 demo_v1_file = MMJP_MODEL_MAGIC_V1"
    by (simp add: demo_v1_file_def MMJP_MODEL_MAGIC_V1_def)
  from mmjp_model_load_bin_v1[OF t demo_v1_load] t demo_v1_load show ?thesis
    by (simp add: NPYCRF_CC_MODE_UTF8LEN_def NPYCRF_CC_MODE_COMPAT_def)
qed

end
